theory Spec2Isabelle
  imports Main
begin

section \<open>JavaScript values\<close>

text \<open>
  The consumer reads a delivered envelope out of \<^verbatim>\<open>JSON.parse\<close> as a value of type
  \<^verbatim>\<open>any\<close>, so every field of an envelope is, at run time, an arbitrary JavaScript value.
  Numbers are restricted to integers: the code only ever tests them for truthiness and
  copies them.
\<close>

datatype jsval =
    JUndefined
  | JNull
  | JBool bool
  | JNum int
  | JStr string
  | JArr "jsval list"
  | JObj "(string \<times> jsval) list"

text \<open>Truthiness, as \<^verbatim>\<open>||\<close>, \<^verbatim>\<open>!\<close> and \<^verbatim>\<open>if\<close> read it.\<close>

fun truthy :: "jsval \<Rightarrow> bool" where
  "truthy JUndefined = False"
| "truthy JNull = False"
| "truthy (JBool b) = b"
| "truthy (JNum n) = (n \<noteq> 0)"
| "truthy (JStr s) = (s \<noteq> [])"
| "truthy (JArr xs) = True"
| "truthy (JObj kvs) = True"

text \<open>\<^verbatim>\<open>a || b\<close>\<close>

definition js_or :: "jsval \<Rightarrow> jsval \<Rightarrow> jsval" where
  "js_or a b = (if truthy a then a else b)"

text \<open>
  \<^verbatim>\<open>raw.key\<close> on a value that is neither \<^verbatim>\<open>null\<close> nor \<^verbatim>\<open>undefined\<close>. The source reads only
  the envelope's field names, none of which is a property of the String, Array or Object
  prototypes, so a missing own property reads as \<^verbatim>\<open>undefined\<close>.
\<close>

fun get_prop :: "jsval \<Rightarrow> string \<Rightarrow> jsval" where
  "get_prop (JObj kvs) k = (case map_of kvs k of Some v \<Rightarrow> v | None \<Rightarrow> JUndefined)"
| "get_prop v k = JUndefined"

text \<open>Thrown values; the catch blocks of the source read only \<^verbatim>\<open>error.message\<close>. Every thrown
  value is an error object: a handler that rejects with \<^verbatim>\<open>null\<close> or \<^verbatim>\<open>undefined\<close> is not
  modelled.\<close>

datatype error =
    SyntaxError string
  | TypeError string
  | ReplyError string
  | Error string

fun message :: "error \<Rightarrow> string" where
  "message (SyntaxError m) = m"
| "message (TypeError m) = m"
| "message (ReplyError m) = m"
| "message (Error m) = m"

text \<open>\<^verbatim>\<open>s.includes(sub)\<close>\<close>

fun str_includes :: "string \<Rightarrow> string \<Rightarrow> bool" where
  "str_includes [] sub = (sub = [])"
| "str_includes (c # cs) sub = (take (length sub) (c # cs) = sub \<or> str_includes cs sub)"


section \<open>Stream topology\<close>

text \<open>\<^verbatim>\<open>eventType.split('.')[0]\<close>: the text before the first dot, all of it when there is none.\<close>

definition split_dot_first :: "string \<Rightarrow> string" where
  "split_dot_first eventType = takeWhile (\<lambda>c. c \<noteq> CHR ''.'') eventType"

text \<open>\<^verbatim>\<open>EventPublisher.getStreamName\<close>: \<^verbatim>\<open>`${this.streamPrefix}:${domain}s`\<close>\<close>

definition EventPublisher_getStreamName :: "string \<Rightarrow> string \<Rightarrow> string" where
  "EventPublisher_getStreamName streamPrefix eventType =
     (let domain = split_dot_first eventType in streamPrefix @ '':'' @ domain @ ''s'')"

text \<open>\<^verbatim>\<open>RedisStreamsConsumer.getStreamName\<close>: \<^verbatim>\<open>`events:${domain}`\<close>\<close>

definition RedisStreamsConsumer_getStreamName :: "string \<Rightarrow> string" where
  "RedisStreamsConsumer_getStreamName eventType =
     (let domain = split_dot_first eventType in ''events:'' @ domain)"


section \<open>Event envelopes\<close>

text \<open>
  \<^verbatim>\<open>interface EventEnvelope\<close>. The fields are typed strings and objects in the source, and the
  publisher builds them so; the consumer fills them with whatever \<^verbatim>\<open>JSON.parse\<close> delivered,
  and an absent optional field is \<^verbatim>\<open>undefined\<close>.
\<close>

record EventEnvelope =
  eventId :: jsval
  eventType :: jsval
  timestamp :: jsval
  source :: jsval
  version :: jsval
  correlationId :: jsval
  causationId :: jsval
  traceContext :: jsval
  metadata :: jsval
  data :: jsval

text \<open>The \<^verbatim>\<open>options\<close> argument of \<^verbatim>\<open>createEventEnvelope\<close>.\<close>

record envelope_options =
  opt_correlationId :: jsval
  opt_causationId :: jsval
  opt_traceContext :: jsval
  opt_metadata :: jsval

text \<open>\<^verbatim>\<open>options?.field\<close>, with \<^verbatim>\<open>None\<close> for an omitted \<^verbatim>\<open>options\<close>.\<close>

definition opt_chain :: "envelope_options option \<Rightarrow> (envelope_options \<Rightarrow> jsval) \<Rightarrow> jsval" where
  "opt_chain options field = (case options of None \<Rightarrow> JUndefined | Some opts \<Rightarrow> field opts)"

text \<open>
  \<^verbatim>\<open>createEventEnvelope\<close>. The fresh identifier of \<^verbatim>\<open>uuidv4()\<close> and the clock reading of
  \<^verbatim>\<open>new Date().toISOString()\<close> are arguments.
\<close>

definition createEventEnvelope ::
  "string \<Rightarrow> string \<Rightarrow> string \<Rightarrow> string \<Rightarrow> jsval \<Rightarrow> envelope_options option \<Rightarrow> EventEnvelope" where
  "createEventEnvelope uuid now eventType' source' data' options =
     \<lparr> eventId = JStr uuid,
       eventType = JStr eventType',
       timestamp = JStr now,
       source = JStr source',
       version = JStr ''1.0.0'',
       correlationId = opt_chain options opt_correlationId,
       causationId = opt_chain options opt_causationId,
       traceContext = opt_chain options opt_traceContext,
       metadata = opt_chain options opt_metadata,
       data = data' \<rparr>"

text \<open>The envelope as the JavaScript object that \<^verbatim>\<open>JSON.stringify\<close> receives, properties in
  the order of the object literal.\<close>

definition envelope_object :: "EventEnvelope \<Rightarrow> jsval" where
  "envelope_object e =
     JObj [(''eventId'', eventId e), (''eventType'', eventType e), (''timestamp'', timestamp e),
           (''source'', source e), (''version'', version e),
           (''correlationId'', correlationId e), (''causationId'', causationId e),
           (''traceContext'', traceContext e), (''metadata'', metadata e), (''data'', data e)]"

text \<open>
  The normalisation of \<^verbatim>\<open>processMessage\<close> (the object literal built from \<^verbatim>\<open>rawEnvelope\<close>).
  Reading a property of \<^verbatim>\<open>null\<close> throws a \<^verbatim>\<open>TypeError\<close>; of any other parsed value it does not.
\<close>

definition normalize_envelope :: "jsval \<Rightarrow> error + EventEnvelope" where
  "normalize_envelope rawEnvelope =
     (if rawEnvelope = JNull \<or> rawEnvelope = JUndefined
      then Inl (TypeError ''Cannot read properties of null'')
      else Inr
        \<lparr> eventId = js_or (get_prop rawEnvelope ''eventId'') (get_prop rawEnvelope ''event_id''),
          eventType = js_or (get_prop rawEnvelope ''eventType'') (get_prop rawEnvelope ''event_type''),
          timestamp = get_prop rawEnvelope ''timestamp'',
          source = get_prop rawEnvelope ''source'',
          version = get_prop rawEnvelope ''version'',
          correlationId =
            js_or (get_prop rawEnvelope ''correlationId'') (get_prop rawEnvelope ''correlation_id''),
          causationId =
            js_or (get_prop rawEnvelope ''causationId'') (get_prop rawEnvelope ''causation_id''),
          traceContext =
            js_or (get_prop rawEnvelope ''traceContext'') (get_prop rawEnvelope ''trace_context''),
          metadata = get_prop rawEnvelope ''metadata'',
          data = get_prop rawEnvelope ''data'' \<rparr>)"


section \<open>Template literals\<close>

text \<open>Decimal digits of a natural number and of an integer, as \<^verbatim>\<open>String(n)\<close> prints an
  integer of fewer than 22 digits.\<close>

fun show_nat :: "nat \<Rightarrow> string" where
  "show_nat n =
     (if n < 10 then [char_of (48 + n)] else show_nat (n div 10) @ [char_of (48 + n mod 10)])"

declare show_nat.simps [simp del]

definition show_int :: "int \<Rightarrow> string" where
  "show_int i = (if i < 0 then ''-'' @ show_nat (nat (- i)) else show_nat (nat i))"

text \<open>
  \<^verbatim>\<open>`${v}`\<close>, the string conversion of a template literal, on values that \<^verbatim>\<open>JSON.parse\<close> can
  deliver. A plain object prints as \<^verbatim>\<open>[object Object]\<close> through \<^verbatim>\<open>Object.prototype.toString\<close>,
  unless it has an own property \<^verbatim>\<open>toString\<close>: that one is not callable, \<^verbatim>\<open>valueOf\<close> yields no
  primitive, and the conversion throws. An array prints its elements joined by commas,
  \<^verbatim>\<open>null\<close> and \<^verbatim>\<open>undefined\<close> elements as the empty string.
\<close>

fun js_ToString :: "jsval \<Rightarrow> error + string"
  and js_join :: "jsval list \<Rightarrow> error + string" where
  "js_ToString JUndefined = Inr ''undefined''"
| "js_ToString JNull = Inr ''null''"
| "js_ToString (JBool b) = Inr (if b then ''true'' else ''false'')"
| "js_ToString (JNum n) = Inr (show_int n)"
| "js_ToString (JStr s) = Inr s"
| "js_ToString (JArr xs) = js_join xs"
| "js_ToString (JObj kvs) =
     (case map_of kvs ''toString'' of
        Some v \<Rightarrow> Inl (TypeError ''Cannot convert object to primitive value'')
      | None \<Rightarrow> Inr ''[object Object]'')"
| "js_join [] = Inr []"
| "js_join (x # xs) =
     (case (if x = JNull \<or> x = JUndefined then Inr [] else js_ToString x) of
        Inl err \<Rightarrow> Inl err
      | Inr s \<Rightarrow>
          (if xs = [] then Inr s
           else (case js_join xs of Inl err \<Rightarrow> Inl err | Inr t \<Rightarrow> Inr (s @ '','' @ t))))"


section \<open>Tracing\<close>

datatype SpanKind = INTERNAL | SERVER | CLIENT | PRODUCER | CONSUMER

text \<open>A span context names a span by its trace and span identifiers and carries its
  trace flags (\<open>0\<close> none, \<open>1\<close> sampled); the trace state is left out. A \<^verbatim>\<open>Context\<close> holds the
  span context of its current span, or none (the root context). A \<^verbatim>\<open>Span\<close> object is
  referred to by its span context.\<close>

datatype SpanContext = SpanContext (traceId: string) (spanId: string) (traceFlags: nat)

type_synonym Context = "SpanContext option"

type_synonym Span = SpanContext

datatype level = INFO | ERROR | WARN | DEBUG

text \<open>
  What a call does to the outside, in order: log lines, calls on spans, commands sent to
  Redis, and invocations of registered handlers.
\<close>

datatype event =
    Log level string "(string \<times> jsval) list"
  | SpanStart Span string SpanKind "(string \<times> jsval) list option" Context
  | SetAttribute Span string jsval
  | RecordException Span error
  | SpanEnd Span
  | HandlerCall EventEnvelope
  | XACK string string string
  | XGROUP_CREATE string string string
  | XADD string string string
  | StartConsuming

text \<open>The state a call runs in: the events so far, the counter behind the tracer's
  identifier generator, and \<^verbatim>\<open>context.active()\<close>.\<close>

record world =
  events :: "event list"
  seed :: nat
  active :: Context

definition emit :: "event \<Rightarrow> world \<Rightarrow> world" where
  "emit ev w = w\<lparr>events := events w @ [ev]\<rparr>"

text \<open>
  What the code takes from the platform and from the OpenTelemetry API: the JSON codec,
  the registered propagator, and the tracer's identifier generator and sampler (which
  decides from the parent context and the trace identifier).
\<close>

record platform =
  JSON_parse :: "string \<Rightarrow> error + jsval"
  JSON_stringify :: "jsval \<Rightarrow> string"
  propagation_inject :: "Context \<Rightarrow> jsval \<Rightarrow> jsval"
  propagation_extract :: "Context \<Rightarrow> jsval \<Rightarrow> Context"
  generateTraceId :: "nat \<Rightarrow> string"
  generateSpanId :: "nat \<Rightarrow> string"
  shouldSample :: "Context \<Rightarrow> string \<Rightarrow> bool"

text \<open>\<^verbatim>\<open>isSpanContextValid\<close> of the API: both identifiers are hexadecimal, in either case, of
  32 and 16 digits, and not all zero.\<close>

definition is_hex_digit :: "char \<Rightarrow> bool" where
  "is_hex_digit c =
     (let n = (of_char c :: nat)
      in (48 \<le> n \<and> n \<le> 57) \<or> (97 \<le> n \<and> n \<le> 102) \<or> (65 \<le> n \<and> n \<le> 70))"

definition isValidTraceId :: "string \<Rightarrow> bool" where
  "isValidTraceId s =
     (length s = 32 \<and> list_all is_hex_digit s \<and> s \<noteq> replicate 32 (CHR ''0''))"

definition isValidSpanId :: "string \<Rightarrow> bool" where
  "isValidSpanId s =
     (length s = 16 \<and> list_all is_hex_digit s \<and> s \<noteq> replicate 16 (CHR ''0''))"

definition isSpanContextValid :: "SpanContext \<Rightarrow> bool" where
  "isSpanContextValid sc = (isValidTraceId (traceId sc) \<and> isValidSpanId (spanId sc))"

text \<open>
  The span context that the tracer's \<^verbatim>\<open>startSpan\<close> gives a span started under \<open>ctx\<close>: the
  trace of a valid parent is continued, otherwise a new one is started; the span
  identifier is fresh; the span is flagged as sampled when the sampler says so.
\<close>

definition tracer_startSpan :: "platform \<Rightarrow> Context \<Rightarrow> nat \<Rightarrow> SpanContext" where
  "tracer_startSpan P ctx n =
     (let tid = (case ctx of
                   Some parent \<Rightarrow>
                     if isSpanContextValid parent then traceId parent else generateTraceId P n
                 | None \<Rightarrow> generateTraceId P n)
      in SpanContext tid (generateSpanId P n) (if shouldSample P ctx tid then 1 else 0))"

text \<open>\<^verbatim>\<open>extractTraceContext\<close> and \<^verbatim>\<open>getCurrentTraceContext\<close>\<close>

definition extractTraceContext :: "platform \<Rightarrow> jsval \<Rightarrow> world \<Rightarrow> Context" where
  "extractTraceContext P carrier w = propagation_extract P (active w) carrier"

definition getCurrentTraceContext :: "platform \<Rightarrow> world \<Rightarrow> jsval" where
  "getCurrentTraceContext P w = (let carrier = JObj [] in propagation_inject P (active w) carrier)"

text \<open>The \<^verbatim>\<open>options\<close> of \<^verbatim>\<open>createSpan\<close> and \<^verbatim>\<open>withSpan\<close>; \<^verbatim>\<open>None\<close> is a property left out.\<close>

record span_options =
  parentContext :: "Context option"
  kind :: "SpanKind option"
  attributes :: "(string \<times> jsval) list option"

text \<open>
  \<^verbatim>\<open>createSpan\<close>: the parent is \<^verbatim>\<open>options.parentContext || context.active()\<close>, the kind
  \<^verbatim>\<open>options.kind || SpanKind.INTERNAL\<close>.
\<close>

definition createSpan :: "platform \<Rightarrow> string \<Rightarrow> span_options \<Rightarrow> world \<Rightarrow> Span \<times> world" where
  "createSpan P name options w =
     (let ctx = (case parentContext options of Some c \<Rightarrow> c | None \<Rightarrow> active w);
          k = (case kind options of Some k \<Rightarrow> k | None \<Rightarrow> INTERNAL);
          span = tracer_startSpan P ctx (seed w)
      in (span,
          emit (SpanStart span name k (attributes options) ctx) (w\<lparr>seed := Suc (seed w)\<rparr>)))"

text \<open>\<^verbatim>\<open>context.with(ctx, f)\<close>: \<open>f\<close> runs with \<open>ctx\<close> active; the previous context is active again
  afterwards.\<close>

definition context_with ::
  "Context \<Rightarrow> (world \<Rightarrow> (error + 'a) \<times> world) \<Rightarrow> world \<Rightarrow> (error + 'a) \<times> world" where
  "context_with ctx f w = (case f (w\<lparr>active := ctx\<rparr>) of (r, w') \<Rightarrow> (r, w'\<lparr>active := active w\<rparr>))"

text \<open>\<^verbatim>\<open>trace.setSpan(ctx, span)\<close>: the context whose current span is \<open>span\<close>.\<close>

definition trace_setSpan :: "Context \<Rightarrow> Span \<Rightarrow> Context" where
  "trace_setSpan ctx span = Some span"

text \<open>
  \<^verbatim>\<open>withSpan\<close>: \<^verbatim>\<open>try { return await context.with(ctx, () => fn(span)) }
  catch (error) { span.recordException(error); throw error } finally { span.end() }\<close>
\<close>

definition withSpan ::
  "platform \<Rightarrow> string \<Rightarrow> (Span \<Rightarrow> world \<Rightarrow> (error + 'a) \<times> world) \<Rightarrow> span_options \<Rightarrow> world
     \<Rightarrow> (error + 'a) \<times> world" where
  "withSpan P name fn options w =
     (case createSpan P name options w of (span, w1) \<Rightarrow>
        (let ctx = trace_setSpan
               (case parentContext options of Some c \<Rightarrow> c | None \<Rightarrow> active w1) span
         in (case context_with ctx (fn span) w1 of
               (Inr res, w2) \<Rightarrow> (Inr res, emit (SpanEnd span) w2)
             | (Inl err, w2) \<Rightarrow> (Inl err, emit (SpanEnd span) (emit (RecordException span err) w2)))))"


section \<open>The event stream consumer\<close>

text \<open>A handler is called with the envelope and its promise settles: \<^verbatim>\<open>None\<close> when it
  resolves, the thrown value when it rejects.\<close>

type_synonym EventHandler = "EventEnvelope \<Rightarrow> error option"

text \<open>The fields of \<^verbatim>\<open>class RedisStreamsConsumer\<close>; \<^verbatim>\<open>streams\<close> is a \<^verbatim>\<open>Set\<close>, kept in insertion
  order.\<close>

record RedisStreamsConsumer =
  serviceName :: string
  consumerGroup :: string
  consumerName :: string
  handlers :: "string \<rightharpoonup> EventHandler"
  running :: bool
  streams :: "string list"

text \<open>\<^verbatim>\<open>this.streams.add(stream)\<close>\<close>

definition set_add :: "string \<Rightarrow> string list \<Rightarrow> string list" where
  "set_add x xs = (if x \<in> set xs then xs else xs @ [x])"

text \<open>\<^verbatim>\<open>this.handlers.get(key)\<close>: the registry is keyed by strings, so only a string finds an
  entry.\<close>

definition handlers_get :: "(string \<rightharpoonup> EventHandler) \<Rightarrow> jsval \<Rightarrow> EventHandler option" where
  "handlers_get hs key = (case key of JStr s \<Rightarrow> hs s | _ \<Rightarrow> None)"

text \<open>
  A command sent to Redis is an event; the reply (\<^verbatim>\<open>None\<close>, or the error the client rejects
  with) is an argument of the call that sends it.
\<close>

definition client_xack ::
  "error option \<Rightarrow> string \<Rightarrow> string \<Rightarrow> string \<Rightarrow> world \<Rightarrow> (error + unit) \<times> world" where
  "client_xack reply stream grp messageId w =
     ((case reply of None \<Rightarrow> Inr () | Some err \<Rightarrow> Inl err), emit (XACK stream grp messageId) w)"

text \<open>
  \<^verbatim>\<open>subscribe\<close>. Every error of \<^verbatim>\<open>XGROUP CREATE\<close> is caught; one whose message does not
  include \<^verbatim>\<open>BUSYGROUP\<close> is logged. The poll loop is started (not awaited) when the consumer
  is not yet running.
\<close>

definition subscribe ::
  "error option \<Rightarrow> RedisStreamsConsumer \<Rightarrow> string \<Rightarrow> EventHandler \<Rightarrow> world
     \<Rightarrow> (error + unit) \<times> RedisStreamsConsumer \<times> world" where
  "subscribe xgroup_reply C eventType' handler w =
     (let C1 = C\<lparr>handlers := (handlers C)(eventType' \<mapsto> handler)\<rparr>;
          stream = RedisStreamsConsumer_getStreamName eventType';
          C2 = C1\<lparr>streams := set_add stream (streams C1)\<rparr>;
          w1 = emit (XGROUP_CREATE stream (consumerGroup C2) ''0'') w;
          w2 = (case xgroup_reply of
                  None \<Rightarrow>
                    emit (Log INFO ''Created consumer group''
                      [(''stream'', JStr stream), (''group'', JStr (consumerGroup C2))]) w1
                | Some err \<Rightarrow>
                    (if \<not> str_includes (message err) ''BUSYGROUP''
                     then emit (Log ERROR ''Failed to create consumer group''
                       [(''stream'', JStr stream), (''error'', JStr (message err))]) w1
                     else w1))
      in if \<not> running C2
         then (Inr (), C2\<lparr>running := True\<rparr>, emit StartConsuming w2)
         else (Inr (), C2, w2))"

text \<open>The loop of \<^verbatim>\<open>processMessage\<close> over \<^verbatim>\<open>[key, value, key, value, ...]\<close>; a key without a
  value is set to \<^verbatim>\<open>undefined\<close>, which a map reads as \<^verbatim>\<open>None\<close>.\<close>

fun parse_fields :: "string list \<Rightarrow> (string \<rightharpoonup> string) \<Rightarrow> (string \<rightharpoonup> string)" where
  "parse_fields [] d = d"
| "parse_fields [k] d = d(k := None)"
| "parse_fields (k # v # rest) d = parse_fields rest (d(k \<mapsto> v))"

text \<open>\<^verbatim>\<open>a || b\<close> and \<^verbatim>\<open>!a\<close> on the fields of the message, strings or \<^verbatim>\<open>undefined\<close>.\<close>

definition str_or :: "string option \<Rightarrow> string option \<Rightarrow> string option" where
  "str_or a b = (case a of None \<Rightarrow> b | Some s \<Rightarrow> if s = [] then b else a)"

definition str_falsy :: "string option \<Rightarrow> bool" where
  "str_falsy a = (case a of None \<Rightarrow> True | Some s \<Rightarrow> s = [])"

text \<open>
  Decoding a delivered payload: \<^verbatim>\<open>JSON.parse(envelopeData)\<close>, then the normalisation of the
  field names. A \<^verbatim>\<open>SyntaxError\<close> of the parser and the \<^verbatim>\<open>TypeError\<close> of reading \<^verbatim>\<open>null\<close> are
  its only failures.
\<close>

definition decode_envelope :: "platform \<Rightarrow> string \<Rightarrow> error + EventEnvelope" where
  "decode_envelope P envelopeData =
     (case JSON_parse P envelopeData of
        Inl err \<Rightarrow> Inl err
      | Inr rawEnvelope \<Rightarrow> normalize_envelope rawEnvelope)"

text \<open>The function that \<^verbatim>\<open>processMessage\<close> runs inside the consumer span.\<close>

definition consume_fn ::
  "RedisStreamsConsumer \<Rightarrow> EventEnvelope \<Rightarrow> Span \<Rightarrow> world \<Rightarrow> (error + unit) \<times> world" where
  "consume_fn C envelope span w =
     (let w1 = emit (SetAttribute span ''messaging.system'' (JStr ''redis_streams'')) w;
          w2 = emit (SetAttribute span ''messaging.operation'' (JStr ''receive'')) w1;
          w3 = emit (SetAttribute span ''event.type'' (eventType envelope)) w2;
          w4 = emit (SetAttribute span ''event.id'' (eventId envelope)) w3;
          w5 = emit (SetAttribute span ''event.source'' (source envelope)) w4
      in (case handlers_get (handlers C) (eventType envelope) of
            None \<Rightarrow> (Inr (), w5)
          | Some handler \<Rightarrow>
              (let w6 = emit (HandlerCall envelope) w5
               in (case handler envelope of
                     Some err \<Rightarrow> (Inl err, w6)
                   | None \<Rightarrow>
                       (Inr (), emit (Log DEBUG ''Event processed''
                          [(''eventType'', eventType envelope), (''eventId'', eventId envelope)]) w6)))))"

text \<open>The \<^verbatim>\<open>try\<close> block of \<^verbatim>\<open>processMessage\<close>: \<^verbatim>\<open>Inl\<close> is what reaches its \<^verbatim>\<open>catch\<close>.\<close>

definition processMessage_try ::
  "platform \<Rightarrow> RedisStreamsConsumer \<Rightarrow> error option \<Rightarrow> string \<Rightarrow> string \<Rightarrow> string list \<Rightarrow> world
     \<Rightarrow> (error + unit) \<times> world" where
  "processMessage_try P C xack_reply stream messageId fields' w =
     (let data' = parse_fields fields' Map.empty;
          envelopeData = str_or (data' ''data'') (data' ''payload'')
      in if str_falsy envelopeData
         then client_xack xack_reply stream (consumerGroup C) messageId
                (emit (Log WARN ''Message missing data field''
                   [(''messageId'', JStr messageId), (''stream'', JStr stream)]) w)
         else
           (case decode_envelope P (case envelopeData of Some s \<Rightarrow> s | None \<Rightarrow> []) of
              Inl err \<Rightarrow> (Inl err, w)
            | Inr envelope \<Rightarrow>
                (let parentContext' =
                       (if truthy (traceContext envelope)
                        then Some (extractTraceContext P (traceContext envelope) w)
                        else None)
                 in (case js_ToString (eventType envelope) of
                       Inl err \<Rightarrow> (Inl err, w)
                     | Inr type_text \<Rightarrow>
                         (case withSpan P (''consume '' @ type_text) (consume_fn C envelope)
                                 \<lparr>parentContext = parentContext', kind = Some CONSUMER, attributes = None\<rparr> w of
                            (Inl err, w') \<Rightarrow> (Inl err, w')
                          | (Inr u, w') \<Rightarrow>
                              client_xack xack_reply stream (consumerGroup C) messageId w')))))"

text \<open>\<^verbatim>\<open>processMessage\<close>: the \<^verbatim>\<open>catch\<close> logs and swallows whatever the \<^verbatim>\<open>try\<close> block threw.\<close>

definition processMessage ::
  "platform \<Rightarrow> RedisStreamsConsumer \<Rightarrow> error option \<Rightarrow> string \<Rightarrow> string \<Rightarrow> string list \<Rightarrow> world
     \<Rightarrow> world" where
  "processMessage P C xack_reply stream messageId fields' w =
     (case processMessage_try P C xack_reply stream messageId fields' w of
        (Inr u, w') \<Rightarrow> w'
      | (Inl err, w') \<Rightarrow>
          emit (Log ERROR ''Failed to process message''
            [(''messageId'', JStr messageId), (''stream'', JStr stream),
             (''error'', JStr (message err))]) w')"


section \<open>The event publisher\<close>

record EventPublisher =
  publisher_serviceName :: string
  publisher_streamPrefix :: string

text \<open>\<^verbatim>\<open>{ ...options, traceContext }\<close>\<close>

definition spread_options :: "envelope_options option \<Rightarrow> jsval \<Rightarrow> envelope_options" where
  "spread_options options traceContext' =
     (case options of
        None \<Rightarrow> \<lparr>opt_correlationId = JUndefined, opt_causationId = JUndefined,
                  opt_traceContext = traceContext', opt_metadata = JUndefined\<rparr>
      | Some opts \<Rightarrow> opts\<lparr>opt_traceContext := traceContext'\<rparr>)"

text \<open>The envelope that \<^verbatim>\<open>publish\<close> builds before it opens the producer span.\<close>

definition publish_envelope ::
  "platform \<Rightarrow> EventPublisher \<Rightarrow> string \<Rightarrow> string \<Rightarrow> string \<Rightarrow> jsval \<Rightarrow> envelope_options option
     \<Rightarrow> world \<Rightarrow> EventEnvelope" where
  "publish_envelope P pub uuid now eventType' data' options w =
     (let traceContext' = getCurrentTraceContext P w
      in createEventEnvelope uuid now eventType' (publisher_serviceName pub) data'
           (Some (spread_options options traceContext')))"

text \<open>The text that \<^verbatim>\<open>publish\<close> appends under the key \<^verbatim>\<open>data\<close>: \<^verbatim>\<open>JSON.stringify(envelope)\<close>.\<close>

definition published_payload ::
  "platform \<Rightarrow> EventPublisher \<Rightarrow> string \<Rightarrow> string \<Rightarrow> string \<Rightarrow> jsval \<Rightarrow> envelope_options option
     \<Rightarrow> world \<Rightarrow> string" where
  "published_payload P pub uuid now eventType' data' options w =
     JSON_stringify P (envelope_object (publish_envelope P pub uuid now eventType' data' options w))"

text \<open>The function that \<^verbatim>\<open>publish\<close> runs inside the producer span; the reply of \<^verbatim>\<open>XADD\<close> is
  the entry's id, \<^verbatim>\<open>null\<close>, or an error.\<close>

definition publish_fn ::
  "platform \<Rightarrow> error + string option \<Rightarrow> string \<Rightarrow> string \<Rightarrow> EventEnvelope \<Rightarrow> Span \<Rightarrow> world
     \<Rightarrow> (error + string) \<times> world" where
  "publish_fn P xadd_reply stream eventType' envelope span w =
     (let w1 = emit (SetAttribute span ''messaging.system'' (JStr ''redis_streams'')) w;
          w2 = emit (SetAttribute span ''messaging.destination'' (JStr stream)) w1;
          w3 = emit (SetAttribute span ''messaging.operation'' (JStr ''publish'')) w2;
          w4 = emit (SetAttribute span ''event.type'' (JStr eventType')) w3;
          w5 = emit (SetAttribute span ''event.id'' (eventId envelope)) w4;
          w6 = emit (XADD stream ''data'' (JSON_stringify P (envelope_object envelope))) w5
      in (case xadd_reply of
            Inl err \<Rightarrow> (Inl err, w6)
          | Inr messageId \<Rightarrow>
              (Inr (case messageId of Some m \<Rightarrow> m | None \<Rightarrow> []),
               emit (Log INFO ''Event published''
                 [(''eventType'', JStr eventType'), (''eventId'', eventId envelope),
                  (''stream'', JStr stream),
                  (''messageId'', (case messageId of Some m \<Rightarrow> JStr m | None \<Rightarrow> JNull))]) w6)))"

text \<open>\<^verbatim>\<open>EventPublisher.publish\<close>\<close>

definition publish ::
  "platform \<Rightarrow> error + string option \<Rightarrow> EventPublisher \<Rightarrow> string \<Rightarrow> string \<Rightarrow> string \<Rightarrow> jsval
     \<Rightarrow> envelope_options option \<Rightarrow> world \<Rightarrow> (error + string) \<times> world" where
  "publish P xadd_reply pub uuid now eventType' data' options w =
     (let envelope = publish_envelope P pub uuid now eventType' data' options w;
          stream = EventPublisher_getStreamName (publisher_streamPrefix pub) eventType'
      in withSpan P (''publish '' @ eventType') (publish_fn P xadd_reply stream eventType' envelope)
           \<lparr>parentContext = None, kind = Some PRODUCER, attributes = None\<rparr> w)"


section \<open>A reference platform\<close>

text \<open>
  The theorems below hold for every platform. To run the code on concrete messages, this
  section gives one: a JSON codec for the fragment of JSON with integer numbers, ASCII
  strings and the short escapes, the W3C trace-context propagator, a counter in place of
  the random identifier generator, and the default sampler. On texts of the fragment the
  codec reads and writes what \<^verbatim>\<open>JSON.parse\<close> and \<^verbatim>\<open>JSON.stringify\<close> do.
\<close>

definition is_ws :: "char \<Rightarrow> bool" where
  "is_ws c = (c = CHR '' '' \<or> c = CHR 0x09 \<or> c = CHR 0x0A \<or> c = CHR 0x0D)"

definition skip_ws :: "string \<Rightarrow> string" where
  "skip_ws cs = dropWhile is_ws cs"

definition is_digit :: "char \<Rightarrow> bool" where
  "is_digit c = (48 \<le> (of_char c :: nat) \<and> (of_char c :: nat) \<le> 57)"

definition digit_val :: "char \<Rightarrow> nat" where
  "digit_val c = of_char c - 48"

text \<open>The body of a string literal, after its opening quote: the text and what follows the
  closing quote. A raw control character is a syntax error.\<close>

fun parse_string :: "string \<Rightarrow> string \<Rightarrow> (string \<times> string) option" where
  "parse_string [] acc = None"
| "parse_string [c] acc = (if c = CHR 0x22 then Some (acc, []) else None)"
| "parse_string (c # d # r) acc =
     (if c = CHR 0x22 then Some (acc, d # r)
      else if c = CHR 0x5C then
        (if d = CHR 0x22 \<or> d = CHR 0x5C \<or> d = CHR ''/'' then parse_string r (acc @ [d])
         else if d = CHR ''n'' then parse_string r (acc @ [CHR 0x0A])
         else if d = CHR ''t'' then parse_string r (acc @ [CHR 0x09])
         else if d = CHR ''r'' then parse_string r (acc @ [CHR 0x0D])
         else if d = CHR ''b'' then parse_string r (acc @ [CHR 0x08])
         else if d = CHR ''f'' then parse_string r (acc @ [CHR 0x0C])
         else None)
      else if of_char c < (32 :: nat) then None
      else parse_string (d # r) (acc @ [c]))"

fun parse_digits :: "string \<Rightarrow> nat \<Rightarrow> nat \<times> string" where
  "parse_digits [] n = (n, [])"
| "parse_digits (c # r) n =
     (if is_digit c then parse_digits r (10 * n + digit_val c) else (n, c # r))"

text \<open>An integer: an optional minus sign, then \<open>0\<close> or digits without a leading zero; a
  fraction or an exponent is outside the fragment.\<close>

definition parse_number :: "string \<Rightarrow> (jsval \<times> string) option" where
  "parse_number cs =
     (let neg = (cs \<noteq> [] \<and> hd cs = CHR ''-'');
          ds = (if neg then tl cs else cs)
      in if ds = [] \<or> \<not> is_digit (hd ds) then None
         else if hd ds = CHR ''0'' \<and> tl ds \<noteq> [] \<and> is_digit (hd (tl ds)) then None
         else (case parse_digits ds 0 of (n, r) \<Rightarrow>
                 if r \<noteq> [] \<and> (hd r = CHR ''.'' \<or> hd r = CHR ''e'' \<or> hd r = CHR ''E'') then None
                 else Some (JNum (if neg then - int n else int n), r)))"

text \<open>Setting a property: a repeated key keeps its place and takes the later value.\<close>

definition obj_put :: "string \<Rightarrow> jsval \<Rightarrow> (string \<times> jsval) list \<Rightarrow> (string \<times> jsval) list" where
  "obj_put k v kvs =
     (if k \<in> fst ` set kvs then map (\<lambda>(k', v'). if k' = k then (k', v) else (k', v')) kvs
      else kvs @ [(k, v)])"

text \<open>Recursive descent, with fuel for the nesting; the length of the text is enough.\<close>

fun parse_value :: "nat \<Rightarrow> string \<Rightarrow> (jsval \<times> string) option"
  and parse_elements :: "nat \<Rightarrow> string \<Rightarrow> jsval list \<Rightarrow> (jsval \<times> string) option"
  and parse_members :: "nat \<Rightarrow> string \<Rightarrow> (string \<times> jsval) list \<Rightarrow> (jsval \<times> string) option" where
  "parse_value 0 cs = None"
| "parse_value (Suc fuel) cs =
     (case skip_ws cs of
        [] \<Rightarrow> None
      | c # r \<Rightarrow>
          if c = CHR 0x22 then
            (case parse_string r [] of None \<Rightarrow> None | Some (s, r') \<Rightarrow> Some (JStr s, r'))
          else if c = CHR ''['' then
            (case skip_ws r of
               [] \<Rightarrow> None
             | c' # r' \<Rightarrow>
                 if c' = CHR '']'' then Some (JArr [], r') else parse_elements fuel (c' # r') [])
          else if c = CHR ''{'' then
            (case skip_ws r of
               [] \<Rightarrow> None
             | c' # r' \<Rightarrow>
                 if c' = CHR ''}'' then Some (JObj [], r') else parse_members fuel (c' # r') [])
          else if take 4 (c # r) = ''null'' then Some (JNull, drop 4 (c # r))
          else if take 4 (c # r) = ''true'' then Some (JBool True, drop 4 (c # r))
          else if take 5 (c # r) = ''false'' then Some (JBool False, drop 5 (c # r))
          else parse_number (c # r))"
| "parse_elements 0 cs acc = None"
| "parse_elements (Suc fuel) cs acc =
     (case parse_value fuel cs of
        None \<Rightarrow> None
      | Some (v, r) \<Rightarrow>
          (case skip_ws r of
             [] \<Rightarrow> None
           | c # r' \<Rightarrow>
               if c = CHR '','' then parse_elements fuel r' (acc @ [v])
               else if c = CHR '']'' then Some (JArr (acc @ [v]), r')
               else None))"
| "parse_members 0 cs acc = None"
| "parse_members (Suc fuel) cs acc =
     (case skip_ws cs of
        [] \<Rightarrow> None
      | q # r \<Rightarrow>
          if q \<noteq> CHR 0x22 then None
          else
            (case parse_string r [] of
               None \<Rightarrow> None
             | Some (k, r1) \<Rightarrow>
                 (case skip_ws r1 of
                    [] \<Rightarrow> None
                  | c # r2 \<Rightarrow>
                      if c \<noteq> CHR '':'' then None
                      else
                        (case parse_value fuel r2 of
                           None \<Rightarrow> None
                         | Some (v, r3) \<Rightarrow>
                             (case skip_ws r3 of
                                [] \<Rightarrow> None
                              | c' # r4 \<Rightarrow>
                                  if c' = CHR '','' then parse_members fuel r4 (obj_put k v acc)
                                  else if c' = CHR ''}'' then Some (JObj (obj_put k v acc), r4)
                                  else None)))))"

definition json_parse :: "string \<Rightarrow> error + jsval" where
  "json_parse s =
     (case parse_value (Suc (length s)) s of
        None \<Rightarrow> Inl (SyntaxError ''Unexpected token in JSON'')
      | Some (v, r) \<Rightarrow>
          if skip_ws r = [] then Inr v else Inl (SyntaxError ''Unexpected token in JSON''))"

fun quote_chars :: "string \<Rightarrow> string" where
  "quote_chars [] = []"
| "quote_chars (c # cs) =
     (if c = CHR 0x22 then [CHR 0x5C, CHR 0x22]
      else if c = CHR 0x5C then [CHR 0x5C, CHR 0x5C]
      else if c = CHR 0x0A then [CHR 0x5C, CHR ''n'']
      else if c = CHR 0x09 then [CHR 0x5C, CHR ''t'']
      else if c = CHR 0x0D then [CHR 0x5C, CHR ''r'']
      else if c = CHR 0x08 then [CHR 0x5C, CHR ''b'']
      else if c = CHR 0x0C then [CHR 0x5C, CHR ''f'']
      else [c]) @ quote_chars cs"

definition json_quote :: "string \<Rightarrow> string" where
  "json_quote s = [CHR 0x22] @ quote_chars s @ [CHR 0x22]"

text \<open>Serialisation: a property whose value is \<^verbatim>\<open>undefined\<close> is left out, an \<^verbatim>\<open>undefined\<close>
  array element is written \<^verbatim>\<open>null\<close>.\<close>

fun json_stringify :: "jsval \<Rightarrow> string"
  and stringify_elements :: "jsval list \<Rightarrow> string"
  and stringify_members :: "bool \<Rightarrow> (string \<times> jsval) list \<Rightarrow> string" where
  "json_stringify JUndefined = ''null''"
| "json_stringify JNull = ''null''"
| "json_stringify (JBool b) = (if b then ''true'' else ''false'')"
| "json_stringify (JNum n) = show_int n"
| "json_stringify (JStr s) = json_quote s"
| "json_stringify (JArr xs) = ''['' @ stringify_elements xs @ '']''"
| "json_stringify (JObj kvs) = ''{'' @ stringify_members True kvs @ ''}''"
| "stringify_elements [] = []"
| "stringify_elements (x # xs) =
     json_stringify x @ (if xs = [] then [] else '','' @ stringify_elements xs)"
| "stringify_members first [] = []"
| "stringify_members first ((k, v) # kvs) =
     (if v = JUndefined then stringify_members first kvs
      else (if first then [] else '','') @ json_quote k @ '':'' @ json_stringify v
           @ stringify_members False kvs)"

text \<open>
  The propagator that \<^verbatim>\<open>initTracing\<close> registers, \<^verbatim>\<open>W3CTraceContextPropagator\<close>, on span
  contexts without trace state. \<^verbatim>\<open>inject\<close> writes \<^verbatim>\<open>traceparent\<close> only for a context that
  holds a valid span context: version \<open>00\<close>, the two identifiers, and \<open>0\<close> followed by the
  trace flags in hexadecimal. The carrier of this code is always an object.
\<close>

definition hex_digit :: "nat \<Rightarrow> char" where
  "hex_digit n = (''0123456789abcdef'') ! (n mod 16)"

text \<open>\<^verbatim>\<open>n.toString(16)\<close>\<close>

fun show_hex :: "nat \<Rightarrow> string" where
  "show_hex n = (if n < 16 then [hex_digit n] else show_hex (n div 16) @ [hex_digit n])"

declare show_hex.simps [simp del]

definition w3c_inject :: "Context \<Rightarrow> jsval \<Rightarrow> jsval" where
  "w3c_inject ctx carrier =
     (case ctx of
        None \<Rightarrow> carrier
      | Some sc \<Rightarrow>
          (case carrier of
             JObj kvs \<Rightarrow>
               if isSpanContextValid sc
               then JObj (obj_put ''traceparent''
                      (JStr (''00-'' @ traceId sc @ ''-'' @ spanId sc @ ''-0''
                             @ show_hex (traceFlags sc))) kvs)
               else carrier
           | _ \<Rightarrow> carrier))"

text \<open>
  \<^verbatim>\<open>parseTraceParent\<close>, that is the pattern
  \<^verbatim>\<open>^\s?((?!ff)[\da-f]{2})-((?![0]{32})[\da-f]{32})-((?![0]{16})[\da-f]{16})-([\da-f]{2})(-.*)?\s?$\<close>:
  lower-case hexadecimal only; a header of version \<open>00\<close> with a further part is refused.
\<close>

definition is_hex :: "char \<Rightarrow> bool" where
  "is_hex c = (is_digit c \<or> (97 \<le> (of_char c :: nat) \<and> (of_char c :: nat) \<le> 102))"

definition hex_val :: "char \<Rightarrow> nat" where
  "hex_val c = (if is_digit c then of_char c - 48 else of_char c - 87)"

definition valid_id :: "nat \<Rightarrow> string \<Rightarrow> bool" where
  "valid_id n s = (length s = n \<and> list_all is_hex s \<and> s \<noteq> replicate n (CHR ''0''))"

definition is_space :: "char \<Rightarrow> bool" where
  "is_space c =
     (let n = (of_char c :: nat) in (9 \<le> n \<and> n \<le> 13) \<or> n = 32 \<or> n = 160)"

definition is_line_terminator :: "char \<Rightarrow> bool" where
  "is_line_terminator c = (c = CHR 0x0A \<or> c = CHR 0x0D)"

text \<open>What may follow the flags: nothing, one white-space character, or a further part
  that starts with a hyphen and runs to the end of the line.\<close>

definition trailer_ok :: "string \<Rightarrow> bool" where
  "trailer_ok rest =
     (rest = [] \<or> (length rest = 1 \<and> is_space (hd rest))
      \<or> (hd rest = CHR ''-'' \<and> list_all (\<lambda>c. \<not> is_line_terminator c) (butlast (tl rest))))"

definition parseTraceParent :: "string \<Rightarrow> SpanContext option" where
  "parseTraceParent traceParent =
     (let h = (if traceParent \<noteq> [] \<and> is_space (hd traceParent) then tl traceParent
               else traceParent);
          ver = take 2 h; tid = take 32 (drop 3 h); sid = take 16 (drop 36 h);
          flags = take 2 (drop 53 h); rest = drop 55 h
      in if 55 \<le> length h \<and> h ! 2 = CHR ''-'' \<and> h ! 35 = CHR ''-'' \<and> h ! 52 = CHR ''-''
            \<and> list_all is_hex ver \<and> ver \<noteq> ''ff''
            \<and> valid_id 32 tid \<and> valid_id 16 sid \<and> list_all is_hex flags
            \<and> trailer_ok rest
            \<and> \<not> (ver = ''00'' \<and> rest \<noteq> [] \<and> hd rest = CHR ''-'')
         then Some (SpanContext tid sid (16 * hex_val (flags ! 0) + hex_val (flags ! 1)))
         else None)"

text \<open>
  \<^verbatim>\<open>extract\<close> returns the context unchanged when the header is absent or malformed; of an
  array it reads the first element.
\<close>

definition w3c_extract :: "Context \<Rightarrow> jsval \<Rightarrow> Context" where
  "w3c_extract ctx carrier =
     (let traceParentHeader = get_prop carrier ''traceparent''
      in if \<not> truthy traceParentHeader then ctx
         else (case (case traceParentHeader of
                       JArr xs \<Rightarrow> (case xs of [] \<Rightarrow> JUndefined | x # rest \<Rightarrow> x)
                     | v \<Rightarrow> v) of
                 JStr traceParent \<Rightarrow>
                   (case parseTraceParent traceParent of Some sc \<Rightarrow> Some sc | None \<Rightarrow> ctx)
               | _ \<Rightarrow> ctx))"

text \<open>Identifiers: the counter, plus one, in lower-case hexadecimal of the given width.\<close>

fun hex_pad :: "nat \<Rightarrow> nat \<Rightarrow> string" where
  "hex_pad 0 n = []"
| "hex_pad (Suc k) n = hex_pad k (n div 16) @ [hex_digit n]"

definition counter_traceId :: "nat \<Rightarrow> string" where
  "counter_traceId n = hex_pad 32 (Suc n)"

definition counter_spanId :: "nat \<Rightarrow> string" where
  "counter_spanId n = hex_pad 16 (Suc n)"

text \<open>The default sampler: a root span is sampled, a child when its parent is.\<close>

definition parent_based_always_on :: "Context \<Rightarrow> string \<Rightarrow> bool" where
  "parent_based_always_on ctx tid =
     (case ctx of
        None \<Rightarrow> True
      | Some parent \<Rightarrow> if isSpanContextValid parent then odd (traceFlags parent) else True)"

definition reference_platform :: platform where
  "reference_platform =
     \<lparr> JSON_parse = json_parse,
       JSON_stringify = json_stringify,
       propagation_inject = w3c_inject,
       propagation_extract = w3c_extract,
       generateTraceId = counter_traceId,
       generateSpanId = counter_spanId,
       shouldSample = parent_based_always_on \<rparr>"


section \<open>Sample data\<close>

text \<open>A fresh process: nothing has happened, no span is active.\<close>

definition world0 :: world where
  "world0 = \<lparr>events = [], seed = 0, active = None\<rparr>"

text \<open>A handler that resolves, and one that rejects every envelope whose \<^verbatim>\<open>data\<close> is
  \<^verbatim>\<open>null\<close>.\<close>

definition resolving_handler :: EventHandler where
  "resolving_handler envelope = None"

definition strict_handler :: EventHandler where
  "strict_handler envelope =
     (if data envelope = JNull then Some (Error ''order has no data'') else None)"

text \<open>A consumer of the order service, subscribed to \<^verbatim>\<open>order.created\<close> with the strict
  handler.\<close>

definition order_consumer :: RedisStreamsConsumer where
  "order_consumer =
     \<lparr> serviceName = ''order-service'',
       consumerGroup = ''order-service-group'',
       consumerName = ''order-service-4711'',
       handlers = [''order.created'' \<mapsto> strict_handler],
       running = True,
       streams = [''events:order''] \<rparr>"

text \<open>A consumer that has not subscribed yet.\<close>

definition idle_consumer :: RedisStreamsConsumer where
  "idle_consumer =
     \<lparr> serviceName = ''order-service'',
       consumerGroup = ''order-service-group'',
       consumerName = ''order-service-4711'',
       handlers = Map.empty,
       running = False,
       streams = [] \<rparr>"

text \<open>Payloads: an order without data (the strict handler rejects it), an order with data,
  and an event of a type nobody subscribed to, written in the snake-case dialect.\<close>

definition order_without_data :: string where
  \<open>order_without_data =
     ''{"eventId":"e1","eventType":"order.created","source":"order-service","data":null}''\<close>

definition order_with_data :: string where
  \<open>order_with_data =
     ''{"eventId":"e2","eventType":"order.created","source":"order-service","data":{"orderId":"o1"}}''\<close>

definition order_shipped :: string where
  \<open>order_shipped = ''{"event_id":"e3","event_type":"order.shipped","data":{}}''\<close>

text \<open>An event whose type is an object with a property \<^verbatim>\<open>toString\<close>, and one that carries
  its id in both dialects and an empty camel-case type.\<close>

definition order_unprintable :: string where
  \<open>order_unprintable = ''{"eventId":"e12","eventType":{"toString":1}}''\<close>

definition order_mixed :: string where
  \<open>order_mixed =
     ''{"eventId":"camel","event_id":"snake","eventType":"","event_type":"order.shipped"}''\<close>

definition order_publisher :: EventPublisher where
  "order_publisher = \<lparr>publisher_serviceName = ''order-service'', publisher_streamPrefix = ''events''\<rparr>"


section \<open>What one call of \<^verbatim>\<open>processMessage\<close> is observed to do\<close>

text \<open>The payload that \<^verbatim>\<open>processMessage\<close> finds in a message: \<^verbatim>\<open>data.data || data.payload\<close>.\<close>

definition message_payload :: "string list \<Rightarrow> string option" where
  "message_payload fields' =
     (let data' = parse_fields fields' Map.empty in str_or (data' ''data'') (data' ''payload''))"

text \<open>The keys of the flat list \<^verbatim>\<open>[key, value, key, value, ...]\<close> that Redis delivers.\<close>

fun field_keys :: "string list \<Rightarrow> string list" where
  "field_keys [] = []"
| "field_keys [k] = [k]"
| "field_keys (k # v # rest) = k # field_keys rest"

text \<open>The line that the \<^verbatim>\<open>catch\<close> block logs.\<close>

definition failure_log :: "string \<Rightarrow> string \<Rightarrow> error \<Rightarrow> event" where
  "failure_log messageId stream err =
     Log ERROR ''Failed to process message''
       [(''messageId'', JStr messageId), (''stream'', JStr stream),
        (''error'', JStr (message err))]"

text \<open>Acknowledging: the \<^verbatim>\<open>XACK\<close> command, and the failure line when Redis rejects it.\<close>

definition ack_events :: "error option \<Rightarrow> string \<Rightarrow> string \<Rightarrow> string \<Rightarrow> event list" where
  "ack_events xack_reply stream grp messageId =
     XACK stream grp messageId #
     (case xack_reply of None \<Rightarrow> [] | Some err \<Rightarrow> [failure_log messageId stream err])"

text \<open>The parent context of the consumer span, and the span the tracer starts under it.\<close>

definition consumer_parent :: "platform \<Rightarrow> EventEnvelope \<Rightarrow> world \<Rightarrow> Context" where
  "consumer_parent P envelope w =
     (if truthy (traceContext envelope) then extractTraceContext P (traceContext envelope) w
      else active w)"

definition consumer_span :: "platform \<Rightarrow> EventEnvelope \<Rightarrow> world \<Rightarrow> Span" where
  "consumer_span P envelope w = tracer_startSpan P (consumer_parent P envelope w) (seed w)"

text \<open>The five attributes set on the consumer span.\<close>

definition span_attributes :: "Span \<Rightarrow> EventEnvelope \<Rightarrow> event list" where
  "span_attributes span envelope =
     [SetAttribute span ''messaging.system'' (JStr ''redis_streams''),
      SetAttribute span ''messaging.operation'' (JStr ''receive''),
      SetAttribute span ''event.type'' (eventType envelope),
      SetAttribute span ''event.id'' (eventId envelope),
      SetAttribute span ''event.source'' (source envelope)]"

text \<open>The events that a call adds to those before it.\<close>

definition emitted :: "world \<Rightarrow> world \<Rightarrow> event list" where
  "emitted w w' = drop (length (events w)) (events w')"


section \<open>Encodings of an envelope\<close>

text \<open>
  Modelled from the spec: the snake-case dialect of the wire format, which producers
  outside this repository write. The spec names \<^verbatim>\<open>event_id\<close> and \<^verbatim>\<open>event_type\<close>; the other
  keys are those that the consumer's normalisation reads.
\<close>

definition envelope_object_snake :: "EventEnvelope \<Rightarrow> jsval" where
  "envelope_object_snake e =
     JObj [(''event_id'', eventId e), (''event_type'', eventType e), (''timestamp'', timestamp e),
           (''source'', source e), (''version'', version e),
           (''correlation_id'', correlationId e), (''causation_id'', causationId e),
           (''trace_context'', traceContext e), (''metadata'', metadata e), (''data'', data e)]"

text \<open>What a JSON text can carry of an object: the properties whose value is not
  \<^verbatim>\<open>undefined\<close>.\<close>

definition defined_props :: "jsval \<Rightarrow> jsval" where
  "defined_props v =
     (case v of JObj kvs \<Rightarrow> JObj (filter (\<lambda>kv. snd kv \<noteq> JUndefined) kvs) | _ \<Rightarrow> v)"

text \<open>A value that \<^verbatim>\<open>v || other\<close> hands on when \<open>other\<close> is absent: \<^verbatim>\<open>undefined\<close> or truthy.\<close>

definition survives_or :: "jsval \<Rightarrow> bool" where
  "survives_or v = (v = JUndefined \<or> truthy v)"

definition roundtrip_safe :: "EventEnvelope \<Rightarrow> bool" where
  "roundtrip_safe e =
     (survives_or (eventId e) \<and> survives_or (eventType e) \<and> survives_or (correlationId e)
      \<and> survives_or (causationId e) \<and> survives_or (traceContext e))"

text \<open>The envelope with every falsy value of those five fields replaced by \<^verbatim>\<open>undefined\<close>.\<close>

definition drop_falsy :: "EventEnvelope \<Rightarrow> EventEnvelope" where
  "drop_falsy e =
     e\<lparr> eventId := js_or (eventId e) JUndefined,
        eventType := js_or (eventType e) JUndefined,
        correlationId := js_or (correlationId e) JUndefined,
        causationId := js_or (causationId e) JUndefined,
        traceContext := js_or (traceContext e) JUndefined \<rparr>"

text \<open>What \<^verbatim>\<open>subscribe\<close> does about the consumer group: the command, and the line it logs on
  the reply.\<close>

definition creation_events :: "error option \<Rightarrow> string \<Rightarrow> string \<Rightarrow> event list" where
  "creation_events xgroup_reply stream grp =
     XGROUP_CREATE stream grp ''0'' #
     (case xgroup_reply of
        None \<Rightarrow>
          [Log INFO ''Created consumer group'' [(''stream'', JStr stream), (''group'', JStr grp)]]
      | Some err \<Rightarrow>
          (if str_includes (message err) ''BUSYGROUP'' then []
           else [Log ERROR ''Failed to create consumer group''
                  [(''stream'', JStr stream), (''error'', JStr (message err))]]))"

text \<open>An envelope as \<^verbatim>\<open>publish\<close> builds it with every option given, and one whose caller
  passed an empty correlation id.\<close>

definition full_envelope :: EventEnvelope where
  "full_envelope =
     createEventEnvelope ''7c9e6679-7425-40de-944b-e07fc1f90ae7'' ''2024-05-01T12:00:00.000Z''
       ''order.created'' ''order-service''
       (JObj [(''orderId'', JStr ''o1''), (''total'', JNum 42), (''items'', JArr [JStr ''a'', JNull])])
       (Some \<lparr> opt_correlationId = JStr ''corr-1'',
               opt_causationId = JUndefined,
               opt_traceContext =
                 JObj [(''traceparent'',
                        JStr ''00-4bf92f3577b34da6a3ce929d0e0e4736-00f067aa0ba902b7-01'')],
               opt_metadata = JObj [(''tenant'', JStr ''acme'')] \<rparr>)"

definition blank_correlation_envelope :: EventEnvelope where
  "blank_correlation_envelope =
     createEventEnvelope ''7c9e6679-7425-40de-944b-e07fc1f90ae7'' ''2024-05-01T12:00:00.000Z''
       ''order.created'' ''order-service'' (JObj [(''orderId'', JStr ''o1'')])
       (Some \<lparr> opt_correlationId = JStr [],
               opt_causationId = JUndefined,
               opt_traceContext = JObj [],
               opt_metadata = JUndefined \<rparr>)"

text \<open>The span of a caller, and a process in which it is active.\<close>

definition caller_span :: SpanContext where
  "caller_span = SpanContext ''4bf92f3577b34da6a3ce929d0e0e4736'' ''00f067aa0ba902b7'' 1"

definition traced_world :: world where
  "traced_world = \<lparr>events = [], seed = 0, active = Some caller_span\<rparr>"


section \<open>Basic facts\<close>

lemma events_emit [simp]: "events (emit ev w) = events w @ [ev]"
  by (simp add: emit_def)

lemma seed_emit [simp]: "seed (emit ev w) = seed w"
  by (simp add: emit_def)

lemma active_emit [simp]: "active (emit ev w) = active w"
  by (simp add: emit_def)

lemma emitted_append: "events w' = events w @ evs \<Longrightarrow> emitted w w' = evs"
  by (simp add: emitted_def)


section \<open>Stream names of the publisher and of the consumer\<close>

lemma split_dot_first_examples:
  "split_dot_first ''user.registered'' = ''user''"
  "split_dot_first ''order.created.v2'' = ''order''"
  "split_dot_first ''plain'' = ''plain''"
  by (simp_all add: split_dot_first_def)

text \<open>
  The two derivations never agree, whatever the publisher's prefix: equal lengths force a
  prefix of five characters, and then the sixth character is a colon on one side and the
  \<open>s\<close> of \<open>events\<close> on the other.
\<close>

lemma stream_names_never_agree:
  "EventPublisher_getStreamName streamPrefix et
     \<noteq> RedisStreamsConsumer_getStreamName et"
proof
  let ?d = "split_dot_first et"
  assume "EventPublisher_getStreamName streamPrefix et
            = RedisStreamsConsumer_getStreamName et"
  then have eq: "streamPrefix @ '':'' @ ?d @ ''s'' = ''events:'' @ ?d"
    by (simp add: EventPublisher_getStreamName_def RedisStreamsConsumer_getStreamName_def Let_def)
  then have "length (streamPrefix @ '':'' @ ?d @ ''s'') = length (''events:'' @ ?d)"
    by simp
  then have len: "length streamPrefix = 5"
    by simp
  from eq have "(streamPrefix @ '':'' @ ?d @ ''s'') ! 5 = (''events:'' @ ?d) ! 5"
    by simp
  with len show False
    by (simp add: nth_append)
qed

text \<open>
  C2. Claimed: for every event type \<open>x.y\<close> the publisher and the consumer derive the same
  stream name. At \<open>user.registered\<close>, with the publisher's default prefix \<open>events\<close>, the
  publisher appends to \<open>events:users\<close> while the consumer's group is attached to
  \<open>events:user\<close>.
\<close>

theorem C2_stream_names_diverge:
  "EventPublisher_getStreamName ''events'' ''user.registered'' = ''events:users''
   \<and> RedisStreamsConsumer_getStreamName ''user.registered'' = ''events:user''"
  by (simp add: EventPublisher_getStreamName_def RedisStreamsConsumer_getStreamName_def
      split_dot_first_def)


section \<open>Dispatch and acknowledgment\<close>

lemma parse_fields_absent: "k \<notin> set (field_keys flds) \<Longrightarrow> parse_fields flds d k = d k"
  by (induction flds d rule: parse_fields.induct) auto

lemma message_payload_absent:
  assumes "''data'' \<notin> set (field_keys flds)" and "''payload'' \<notin> set (field_keys flds)"
  shows "message_payload flds = None"
  using assms by (simp add: message_payload_def Let_def parse_fields_absent str_or_def)

lemma processMessage_no_payload:
  assumes "message_payload flds = None \<or> message_payload flds = Some []"
  shows "events (processMessage P C xack_reply stream messageId flds w) =
     events w @
     Log WARN ''Message missing data field''
       [(''messageId'', JStr messageId), (''stream'', JStr stream)] #
     ack_events xack_reply stream (consumerGroup C) messageId"
  using assms
  by (auto simp: processMessage_def processMessage_try_def Let_def message_payload_def
      str_falsy_def client_xack_def ack_events_def failure_log_def
      split: option.splits)

lemma processMessage_undecodable:
  assumes payload: "message_payload flds = Some payload"
    and ne: "payload \<noteq> []"
    and dec: "decode_envelope P payload = Inl err"
  shows "events (processMessage P C xack_reply stream messageId flds w) =
     events w @ [failure_log messageId stream err]"
proof -
  from payload have p: "str_or (parse_fields flds Map.empty ''data'')
      (parse_fields flds Map.empty ''payload'') = Some payload"
    by (simp add: message_payload_def Let_def)
  show ?thesis
    using ne
    by (simp add: processMessage_def processMessage_try_def Let_def p dec str_falsy_def
        failure_log_def)
qed

lemma processMessage_decoded:
  assumes payload: "message_payload flds = Some payload"
    and ne: "payload \<noteq> []"
    and dec: "decode_envelope P payload = Inr envelope"
    and name: "js_ToString (eventType envelope) = Inr type_text"
  shows "events (processMessage P C xack_reply stream messageId flds w) =
     events w @
     SpanStart (consumer_span P envelope w) (''consume '' @ type_text) CONSUMER None
       (consumer_parent P envelope w) #
     span_attributes (consumer_span P envelope w) envelope @
     (case handlers_get (handlers C) (eventType envelope) of
        None \<Rightarrow>
          SpanEnd (consumer_span P envelope w) #
          ack_events xack_reply stream (consumerGroup C) messageId
      | Some handler \<Rightarrow>
          HandlerCall envelope #
          (case handler envelope of
             None \<Rightarrow>
               Log DEBUG ''Event processed''
                 [(''eventType'', eventType envelope), (''eventId'', eventId envelope)] #
               SpanEnd (consumer_span P envelope w) #
               ack_events xack_reply stream (consumerGroup C) messageId
           | Some err \<Rightarrow>
               [RecordException (consumer_span P envelope w) err,
                SpanEnd (consumer_span P envelope w),
                failure_log messageId stream err]))"
proof -
  from payload have p: "str_or (parse_fields flds Map.empty ''data'')
      (parse_fields flds Map.empty ''payload'') = Some payload"
    by (simp add: message_payload_def Let_def)
  show ?thesis
    using ne
    by (simp add: processMessage_def processMessage_try_def Let_def p dec name str_falsy_def
        withSpan_def createSpan_def context_with_def trace_setSpan_def consume_fn_def
        client_xack_def consumer_span_def consumer_parent_def span_attributes_def
        ack_events_def failure_log_def
        split: option.splits)
qed

lemma processMessage_name_throws:
  assumes payload: "message_payload flds = Some payload"
    and ne: "payload \<noteq> []"
    and dec: "decode_envelope P payload = Inr envelope"
    and name: "js_ToString (eventType envelope) = Inl err"
  shows "events (processMessage P C xack_reply stream messageId flds w)
           = events w @ [failure_log messageId stream err]"
proof -
  from payload have p: "str_or (parse_fields flds Map.empty ''data'')
      (parse_fields flds Map.empty ''payload'') = Some payload"
    by (simp add: message_payload_def Let_def)
  show ?thesis
    using ne
    by (simp add: processMessage_def processMessage_try_def Let_def p dec name str_falsy_def
        failure_log_def)
qed

lemma js_ToString_primitive:
  "(\<forall>kvs. v \<noteq> JObj kvs) \<and> (\<forall>xs. v \<noteq> JArr xs) \<Longrightarrow> \<exists>type_text. js_ToString v = Inr type_text"
  by (cases v) simp_all

lemma not_in_failure_log [simp]:
  "XACK s g m \<noteq> failure_log m' s' err" "HandlerCall env \<noteq> failure_log m' s' err"
  by (simp_all add: failure_log_def)

lemma not_in_span_attributes [simp]:
  "XACK s g m \<notin> set (span_attributes span envelope)"
  "HandlerCall env \<notin> set (span_attributes span envelope)"
  by (simp_all add: span_attributes_def)

lemma in_ack_events [simp]:
  "XACK s g m \<in> set (ack_events r s g m)"
  "HandlerCall env \<notin> set (ack_events r s g m)"
  by (simp_all add: ack_events_def failure_log_def split: option.splits)

text \<open>
  C1. A message with a non-empty payload that decodes to an envelope whose event type
  has a registered handler: the consumer opens the span, sets its attributes and calls
  the handler. When the handler resolves, the span is ended and \<^verbatim>\<open>XACK\<close> is sent; when it
  rejects, the exception is recorded on the span, the span is ended, the failure is
  logged with the error's message, and no \<^verbatim>\<open>XACK\<close> is sent. So the entry is acknowledged
  if and only if the handler completes without raising.
\<close>

theorem C1_ack_iff_handler_resolves:
  assumes payload: "message_payload flds = Some payload"
    and ne: "payload \<noteq> []"
    and dec: "decode_envelope P payload = Inr envelope"
    and type: "eventType envelope = JStr et"
    and reg: "handlers C et = Some handler"
  shows "emitted w (processMessage P C xack_reply stream messageId flds w) =
           SpanStart (consumer_span P envelope w) (''consume '' @ et) CONSUMER None
             (consumer_parent P envelope w) #
           span_attributes (consumer_span P envelope w) envelope @
           HandlerCall envelope #
           (case handler envelope of
              None \<Rightarrow>
                Log DEBUG ''Event processed''
                  [(''eventType'', eventType envelope), (''eventId'', eventId envelope)] #
                SpanEnd (consumer_span P envelope w) #
                ack_events xack_reply stream (consumerGroup C) messageId
            | Some err \<Rightarrow>
                [RecordException (consumer_span P envelope w) err,
                 SpanEnd (consumer_span P envelope w),
                 failure_log messageId stream err])
         \<and> (XACK stream (consumerGroup C) messageId
               \<in> set (emitted w (processMessage P C xack_reply stream messageId flds w)))
             = (handler envelope = None)"
proof -
  have name: "js_ToString (eventType envelope) = Inr et"
    by (simp add: type)
  have get: "handlers_get (handlers C) (eventType envelope) = Some handler"
    by (simp add: handlers_get_def type reg)
  have eq: "emitted w (processMessage P C xack_reply stream messageId flds w) =
           SpanStart (consumer_span P envelope w) (''consume '' @ et) CONSUMER None
             (consumer_parent P envelope w) #
           span_attributes (consumer_span P envelope w) envelope @
           HandlerCall envelope #
           (case handler envelope of
              None \<Rightarrow>
                Log DEBUG ''Event processed''
                  [(''eventType'', eventType envelope), (''eventId'', eventId envelope)] #
                SpanEnd (consumer_span P envelope w) #
                ack_events xack_reply stream (consumerGroup C) messageId
            | Some err \<Rightarrow>
                [RecordException (consumer_span P envelope w) err,
                 SpanEnd (consumer_span P envelope w),
                 failure_log messageId stream err])"
    by (rule emitted_append)
       (simp add: processMessage_decoded [OF payload ne dec name] get)
  show ?thesis
  proof (cases "handler envelope")
    case None
    with eq show ?thesis by simp
  next
    case (Some err)
    with eq show ?thesis by (simp add: failure_log_def)
  qed
qed

lemma payload_of_data_field:
  "payload \<noteq> [] \<Longrightarrow> message_payload [''data'', payload] = Some payload"
  by (simp add: message_payload_def str_or_def)

text \<open>
  C1 on two deliveries to the order consumer: the strict handler rejects the order without
  data, which is left unacknowledged; it resolves on the order with data, which is
  acknowledged.
\<close>

theorem C1_witness:
  "XACK ''events:order'' ''order-service-group'' ''1-0''
     \<notin> set (emitted world0 (processMessage reference_platform order_consumer None
              ''events:order'' ''1-0'' [''data'', order_without_data] world0))
   \<and> XACK ''events:order'' ''order-service-group'' ''2-0''
     \<in> set (emitted world0 (processMessage reference_platform order_consumer None
              ''events:order'' ''2-0'' [''data'', order_with_data] world0))"
proof -
  let ?e1 = "\<lparr>eventId = JStr ''e1'', eventType = JStr ''order.created'',
      timestamp = JUndefined, source = JStr ''order-service'', version = JUndefined,
      correlationId = JUndefined, causationId = JUndefined,
      traceContext = JUndefined, metadata = JUndefined, data = JNull\<rparr>"
  let ?e2 = "\<lparr>eventId = JStr ''e2'', eventType = JStr ''order.created'',
      timestamp = JUndefined, source = JStr ''order-service'', version = JUndefined,
      correlationId = JUndefined, causationId = JUndefined,
      traceContext = JUndefined, metadata = JUndefined,
      data = JObj [(''orderId'', JStr ''o1'')]\<rparr>"
  have n1: "order_without_data \<noteq> []" and n2: "order_with_data \<noteq> []"
    by (simp_all add: order_without_data_def order_with_data_def)
  have d1: "decode_envelope reference_platform order_without_data = Inr ?e1"
    by code_simp
  have d2: "decode_envelope reference_platform order_with_data = Inr ?e2"
    by code_simp
  have reg: "handlers order_consumer ''order.created'' = Some strict_handler"
    by (simp add: order_consumer_def)
  have grp: "consumerGroup order_consumer = ''order-service-group''"
    by (simp add: order_consumer_def)
  have t1: "eventType ?e1 = JStr ''order.created''"
    and t2: "eventType ?e2 = JStr ''order.created''"
    by simp_all
  have "(XACK ''events:order'' (consumerGroup order_consumer) ''1-0''
           \<in> set (emitted world0 (processMessage reference_platform order_consumer None
                ''events:order'' ''1-0'' [''data'', order_without_data] world0)))
        = (strict_handler ?e1 = None)"
    by (rule C1_ack_iff_handler_resolves [OF payload_of_data_field [OF n1] n1 d1 t1 reg,
          THEN conjunct2])
  moreover have "(XACK ''events:order'' (consumerGroup order_consumer) ''2-0''
           \<in> set (emitted world0 (processMessage reference_platform order_consumer None
                ''events:order'' ''2-0'' [''data'', order_with_data] world0)))
        = (strict_handler ?e2 = None)"
    by (rule C1_ack_iff_handler_resolves [OF payload_of_data_field [OF n2] n2 d2 t2 reg,
          THEN conjunct2])
  ultimately show ?thesis
    by (simp add: grp strict_handler_def)
qed

text \<open>
  C9. A message whose keys include neither \<^verbatim>\<open>data\<close> nor \<^verbatim>\<open>payload\<close>: the consumer logs the
  warning and sends \<^verbatim>\<open>XACK\<close>; no handler is invoked (and no span is opened).
\<close>

theorem C9_no_payload_field:
  assumes "''data'' \<notin> set (field_keys flds)" and "''payload'' \<notin> set (field_keys flds)"
  shows "emitted w (processMessage P C xack_reply stream messageId flds w) =
           Log WARN ''Message missing data field''
             [(''messageId'', JStr messageId), (''stream'', JStr stream)] #
           ack_events xack_reply stream (consumerGroup C) messageId
         \<and> XACK stream (consumerGroup C) messageId
             \<in> set (emitted w (processMessage P C xack_reply stream messageId flds w))
         \<and> (\<forall>envelope. HandlerCall envelope
             \<notin> set (emitted w (processMessage P C xack_reply stream messageId flds w)))"
proof -
  have "message_payload flds = None"
    using assms by (rule message_payload_absent)
  then have "emitted w (processMessage P C xack_reply stream messageId flds w) =
           Log WARN ''Message missing data field''
             [(''messageId'', JStr messageId), (''stream'', JStr stream)] #
           ack_events xack_reply stream (consumerGroup C) messageId"
    by (intro emitted_append processMessage_no_payload) simp
  then show ?thesis by simp
qed

text \<open>
  C9 on a message that carries an envelope under the key \<^verbatim>\<open>event\<close>, with neither a \<^verbatim>\<open>data\<close>
  nor a \<^verbatim>\<open>payload\<close> field: one warning, one \<^verbatim>\<open>XACK\<close>.
\<close>

theorem C9_witness:
  \<open>emitted world0 (processMessage reference_platform order_consumer None ''events:user'' ''4-0''
       [''event'', ''{"event_type":"user.registered","event_id":"abc"}''] world0)
     = [Log WARN ''Message missing data field''
          [(''messageId'', JStr ''4-0''), (''stream'', JStr ''events:user'')],
        XACK ''events:user'' ''order-service-group'' ''4-0'']\<close>
proof -
  have k1: \<open>''data''
      \<notin> set (field_keys [''event'', ''{"event_type":"user.registered","event_id":"abc"}''])\<close>
    by simp
  have k2: \<open>''payload''
      \<notin> set (field_keys [''event'', ''{"event_type":"user.registered","event_id":"abc"}''])\<close>
    by simp
  from C9_no_payload_field [OF k1 k2, where w = world0 and P = reference_platform
      and C = order_consumer and xack_reply = None and stream = "''events:user''"
      and messageId = "''4-0''"]
  show ?thesis
    by (simp add: ack_events_def order_consumer_def)
qed

text \<open>
  C10, as amended. A decoded envelope whose event type has no entry in the handler
  registry: no handler is invoked. When the event type converts to a string for the
  span's name (as every string, number, boolean, \<^verbatim>\<open>null\<close> and \<^verbatim>\<open>undefined\<close> does), the span is
  opened and ended and \<^verbatim>\<open>XACK\<close> is sent. When the conversion throws, the failure is
  logged and no \<^verbatim>\<open>XACK\<close> is sent. So the entry is acknowledged exactly when its event type
  converts to a string.
\<close>

theorem C10_unregistered_type_acknowledged_when_printable:
  assumes payload: "message_payload flds = Some payload"
    and ne: "payload \<noteq> []"
    and dec: "decode_envelope P payload = Inr envelope"
    and unreg: "handlers_get (handlers C) (eventType envelope) = None"
  shows "(case js_ToString (eventType envelope) of
            Inr type_text \<Rightarrow>
              emitted w (processMessage P C xack_reply stream messageId flds w) =
                SpanStart (consumer_span P envelope w) (''consume '' @ type_text) CONSUMER None
                  (consumer_parent P envelope w) #
                span_attributes (consumer_span P envelope w) envelope @
                SpanEnd (consumer_span P envelope w) #
                ack_events xack_reply stream (consumerGroup C) messageId
          | Inl err \<Rightarrow>
              emitted w (processMessage P C xack_reply stream messageId flds w) =
                [failure_log messageId stream err])
         \<and> (XACK stream (consumerGroup C) messageId
               \<in> set (emitted w (processMessage P C xack_reply stream messageId flds w)))
             = (\<exists>type_text. js_ToString (eventType envelope) = Inr type_text)
         \<and> (\<forall>env. HandlerCall env
             \<notin> set (emitted w (processMessage P C xack_reply stream messageId flds w)))
         \<and> ((\<forall>kvs. eventType envelope \<noteq> JObj kvs) \<and> (\<forall>xs. eventType envelope \<noteq> JArr xs)
              \<longrightarrow> (\<exists>type_text. js_ToString (eventType envelope) = Inr type_text))"
proof (cases "js_ToString (eventType envelope)")
  case (Inr type_text)
  have "emitted w (processMessage P C xack_reply stream messageId flds w) =
           SpanStart (consumer_span P envelope w) (''consume '' @ type_text) CONSUMER None
             (consumer_parent P envelope w) #
           span_attributes (consumer_span P envelope w) envelope @
           SpanEnd (consumer_span P envelope w) #
           ack_events xack_reply stream (consumerGroup C) messageId"
    by (rule emitted_append)
       (simp add: processMessage_decoded [OF payload ne dec Inr] unreg)
  then show ?thesis
    using js_ToString_primitive [of "eventType envelope"] by (simp add: Inr)
next
  case (Inl err)
  have "emitted w (processMessage P C xack_reply stream messageId flds w)
          = [failure_log messageId stream err]"
    by (rule emitted_append) (simp add: processMessage_name_throws [OF payload ne dec Inl])
  then show ?thesis
    using js_ToString_primitive [of "eventType envelope"] by (auto simp: Inl)
qed

text \<open>
  The amended C10 on an \<^verbatim>\<open>order.shipped\<close> event delivered to the order consumer, which has
  a handler for \<^verbatim>\<open>order.created\<close> only.
\<close>

theorem C10_witness:
  "XACK ''events:order'' ''order-service-group'' ''5-0''
     \<in> set (emitted world0 (processMessage reference_platform order_consumer None
              ''events:order'' ''5-0'' [''data'', order_shipped] world0))
   \<and> (\<forall>env. HandlerCall env
     \<notin> set (emitted world0 (processMessage reference_platform order_consumer None
              ''events:order'' ''5-0'' [''data'', order_shipped] world0)))"
proof -
  let ?e3 = "\<lparr>eventId = JStr ''e3'', eventType = JStr ''order.shipped'',
      timestamp = JUndefined, source = JUndefined, version = JUndefined,
      correlationId = JUndefined, causationId = JUndefined,
      traceContext = JUndefined, metadata = JUndefined, data = JObj []\<rparr>"
  have n3: "order_shipped \<noteq> []"
    by (simp add: order_shipped_def)
  have d3: "decode_envelope reference_platform order_shipped = Inr ?e3"
    by code_simp
  have unreg: "handlers_get (handlers order_consumer) (eventType ?e3) = None"
    by (simp add: handlers_get_def order_consumer_def)
  from C10_unregistered_type_acknowledged_when_printable
      [OF payload_of_data_field [OF n3] n3 d3 unreg,
      where w = world0 and xack_reply = None and stream = "''events:order''"
      and messageId = "''5-0''"]
  show ?thesis
    by (simp add: order_consumer_def)
qed

text \<open>
  C10 as claimed: every decoded envelope without a registered handler is acknowledged.
  A payload whose \<^verbatim>\<open>eventType\<close> is the object \<^verbatim>\<open>{"toString":1}\<close> decodes and finds no handler;
  the template literal that names the span throws inside the \<^verbatim>\<open>try\<close> block, and the call
  logs the failure and sends no \<^verbatim>\<open>XACK\<close>.
\<close>

theorem C10_counterexample:
  "decode_envelope reference_platform order_unprintable
     = Inr \<lparr>eventId = JStr ''e12'', eventType = JObj [(''toString'', JNum 1)],
            timestamp = JUndefined, source = JUndefined, version = JUndefined,
            correlationId = JUndefined, causationId = JUndefined,
            traceContext = JUndefined, metadata = JUndefined, data = JUndefined\<rparr>
   \<and> handlers_get (handlers order_consumer) (JObj [(''toString'', JNum 1)]) = None
   \<and> emitted world0 (processMessage reference_platform order_consumer None
        ''events:order'' ''12-0'' [''data'', order_unprintable] world0)
      = [Log ERROR ''Failed to process message''
           [(''messageId'', JStr ''12-0''), (''stream'', JStr ''events:order''),
            (''error'', JStr ''Cannot convert object to primitive value'')]]"
proof -
  let ?e12 = "\<lparr>eventId = JStr ''e12'', eventType = JObj [(''toString'', JNum 1)],
      timestamp = JUndefined, source = JUndefined, version = JUndefined,
      correlationId = JUndefined, causationId = JUndefined,
      traceContext = JUndefined, metadata = JUndefined, data = JUndefined\<rparr>"
  have n: "order_unprintable \<noteq> []"
    by (simp add: order_unprintable_def)
  have d: "decode_envelope reference_platform order_unprintable = Inr ?e12"
    by code_simp
  have name: "js_ToString (eventType ?e12)
      = Inl (TypeError ''Cannot convert object to primitive value'')"
    by simp
  have "emitted world0 (processMessage reference_platform order_consumer None
        ''events:order'' ''12-0'' [''data'', order_unprintable] world0)
      = [failure_log ''12-0'' ''events:order''
           (TypeError ''Cannot convert object to primitive value'')]"
    by (rule emitted_append)
       (simp add: processMessage_name_throws [OF payload_of_data_field [OF n] n d name])
  then show ?thesis
    by (simp add: d handlers_get_def failure_log_def)
qed

text \<open>
  C3 as claimed: a message whose payload is present and not parseable is acknowledged at
  once. On the code it is not: the text \<^verbatim>\<open>{not json\<close> under the key \<^verbatim>\<open>data\<close> makes
  \<^verbatim>\<open>JSON.parse\<close> throw, and the call sends no \<^verbatim>\<open>XACK\<close>.
\<close>

theorem C3_counterexample:
  \<open>JSON_parse reference_platform ''{not json'' = Inl (SyntaxError ''Unexpected token in JSON'')
   \<and> message_payload [''data'', ''{not json''] = Some ''{not json''
   \<and> XACK ''events:order'' ''order-service-group'' ''3-0''
       \<notin> set (emitted world0 (processMessage reference_platform order_consumer None
                ''events:order'' ''3-0'' [''data'', ''{not json''] world0))\<close>
proof -
  have p: \<open>message_payload [''data'', ''{not json''] = Some ''{not json''\<close>
    by (simp add: message_payload_def str_or_def)
  have bad: \<open>JSON_parse reference_platform ''{not json''
      = Inl (SyntaxError ''Unexpected token in JSON'')\<close>
    by code_simp
  then have dec: \<open>decode_envelope reference_platform ''{not json''
      = Inl (SyntaxError ''Unexpected token in JSON'')\<close>
    by (simp add: decode_envelope_def)
  have \<open>emitted world0 (processMessage reference_platform order_consumer None
           ''events:order'' ''3-0'' [''data'', ''{not json''] world0)
        = [failure_log ''3-0'' ''events:order'' (SyntaxError ''Unexpected token in JSON'')]\<close>
    by (intro emitted_append processMessage_undecodable [OF p _ dec]) simp
  with p bad show ?thesis
    by (simp add: failure_log_def)
qed

text \<open>
  C3, as amended. A message whose payload is present and not parseable: \<^verbatim>\<open>JSON.parse\<close>
  throws inside the \<^verbatim>\<open>try\<close> block, the \<^verbatim>\<open>catch\<close> logs the failure, and nothing else happens.
  No \<^verbatim>\<open>XACK\<close> is sent: the entry stays pending in the group.
\<close>

theorem C3_unparseable_payload_left_pending:
  assumes payload: "message_payload flds = Some payload"
    and ne: "payload \<noteq> []"
    and bad: "JSON_parse P payload = Inl err"
  shows "emitted w (processMessage P C xack_reply stream messageId flds w) =
           [failure_log messageId stream err]
         \<and> XACK stream (consumerGroup C) messageId
             \<notin> set (emitted w (processMessage P C xack_reply stream messageId flds w))"
proof -
  have "decode_envelope P payload = Inl err"
    by (simp add: decode_envelope_def bad)
  then have "emitted w (processMessage P C xack_reply stream messageId flds w) =
           [failure_log messageId stream err]"
    by (intro emitted_append processMessage_undecodable [OF payload ne])
  then show ?thesis by (simp add: failure_log_def)
qed

text \<open>
  The amended C3 on a truncated envelope under the key \<^verbatim>\<open>payload\<close>: the failure line is all
  that the call emits.
\<close>

theorem C3_witness:
  \<open>emitted world0 (processMessage reference_platform order_consumer None ''events:order'' ''6-0''
       [''payload'', ''{"eventId":"e6",''] world0)
     = [Log ERROR ''Failed to process message''
          [(''messageId'', JStr ''6-0''), (''stream'', JStr ''events:order''),
           (''error'', JStr ''Unexpected token in JSON'')]]\<close>
proof -
  have p: \<open>message_payload [''payload'', ''{"eventId":"e6",''] = Some ''{"eventId":"e6",''\<close>
    by (simp add: message_payload_def str_or_def)
  have n: \<open>''{"eventId":"e6",'' \<noteq> []\<close>
    by simp
  have bad: \<open>JSON_parse reference_platform ''{"eventId":"e6",''
      = Inl (SyntaxError ''Unexpected token in JSON'')\<close>
    by code_simp
  from C3_unparseable_payload_left_pending [OF p n bad, where w = world0
      and C = order_consumer and xack_reply = None and stream = "''events:order''"
      and messageId = "''6-0''"]
  show ?thesis
    by (simp add: failure_log_def)
qed


section \<open>Spans\<close>

text \<open>
  C7. Whatever \<open>fn\<close> does and however it settles, \<^verbatim>\<open>withSpan\<close> hands its outcome on unchanged
  (the value it returned, or the very error it threw), and adds to the events that \<open>fn\<close>
  left behind: the exception recorded on the span when \<open>fn\<close> threw, and then one
  \<^verbatim>\<open>span.end()\<close>. So the span is ended exactly once more than \<open>fn\<close> itself ended it: once,
  unless \<open>fn\<close> ends the span it was given. The context that was active before is active
  again afterwards.
\<close>

theorem C7_withSpan_ends_span_once:
  "(case createSpan P name options w of (span, w1) \<Rightarrow>
      (case fn span (w1\<lparr>active := Some span\<rparr>) of (r, w2) \<Rightarrow>
         fst (withSpan P name fn options w) = r
         \<and> events (snd (withSpan P name fn options w))
             = events w2 @ (case r of Inl err \<Rightarrow> [RecordException span err] | Inr res \<Rightarrow> [])
                 @ [SpanEnd span]
         \<and> count_list (events (snd (withSpan P name fn options w))) (SpanEnd span)
             = Suc (count_list (events w2) (SpanEnd span))
         \<and> active (snd (withSpan P name fn options w)) = active w))"
  by (auto simp: withSpan_def context_with_def trace_setSpan_def createSpan_def Let_def
      split: prod.splits sum.splits)

section \<open>Subscribing\<close>

text \<open>
  C4, as amended. \<^verbatim>\<open>subscribe\<close> never raises, whatever Redis replies to \<^verbatim>\<open>XGROUP CREATE\<close>: an
  error whose message includes \<^verbatim>\<open>BUSYGROUP\<close> is swallowed silently, any other error is
  logged and swallowed too. In every case the handler is registered, the stream is in the
  set of streams (once), the consumer is running, and the poll loop is started when it
  was not running before.
\<close>

theorem C4_subscribe_swallows_every_creation_error:
  "(case subscribe xgroup_reply C et handler w of (r, C', w') \<Rightarrow>
      r = Inr ()
      \<and> handlers C' = (handlers C)(et \<mapsto> handler)
      \<and> streams C' = set_add (RedisStreamsConsumer_getStreamName et) (streams C)
      \<and> running C'
      \<and> emitted w w' =
          creation_events xgroup_reply (RedisStreamsConsumer_getStreamName et) (consumerGroup C)
          @ (if running C then [] else [StartConsuming]))"
  by (simp add: subscribe_def Let_def emitted_def creation_events_def split: option.splits)

text \<open>
  C4 as claimed: a creation error other than \<^verbatim>\<open>BUSYGROUP\<close> is fatal to the subscription and
  the poll loop is not started for it. On the code, with Redis refusing the command for
  lack of permission, \<^verbatim>\<open>subscribe\<close> returns normally, the handler is registered, and the
  poll loop is started.
\<close>

theorem C4_counterexample:
  "(case subscribe (Some (ReplyError ''NOPERM this user has no permissions to run the xgroup command''))
          idle_consumer ''order.created'' strict_handler world0 of (r, C', w') \<Rightarrow>
      r = Inr ()
      \<and> handlers C' ''order.created'' = Some strict_handler
      \<and> running C'
      \<and> StartConsuming \<in> set (events w'))"
  by (simp add: subscribe_def Let_def idle_consumer_def world0_def)

text \<open>
  Subscribing again to a group that exists: Redis replies \<^verbatim>\<open>BUSYGROUP\<close>, nothing is logged,
  the stream is not added a second time, and the running loop is not started again.
\<close>

theorem C4_witness:
  "(case subscribe (Some (ReplyError ''BUSYGROUP Consumer Group name already exists''))
          order_consumer ''order.created'' resolving_handler world0 of (r, C', w') \<Rightarrow>
      r = Inr ()
      \<and> streams C' = [''events:order'']
      \<and> emitted world0 w' = [XGROUP_CREATE ''events:order'' ''order-service-group'' ''0''])"
  using C4_subscribe_swallows_every_creation_error
    [where xgroup_reply = "Some (ReplyError ''BUSYGROUP Consumer Group name already exists'')"
       and C = order_consumer and et = "''order.created''" and handler = resolving_handler
       and w = world0]
  by (simp add: creation_events_def set_add_def RedisStreamsConsumer_getStreamName_def
      split_dot_first_def order_consumer_def split: prod.splits)

section \<open>Decoding\<close>

lemma js_or_survives: "survives_or v \<Longrightarrow> js_or v JUndefined = v"
  by (auto simp: survives_or_def js_or_def)

lemma js_or_undefined_left [simp]: "js_or JUndefined v = v"
  by (simp add: js_or_def)

lemma map_of_defined:
  "distinct (map fst kvs) \<Longrightarrow>
     map_of (filter (\<lambda>kv. snd kv \<noteq> JUndefined) kvs) k =
       (case map_of kvs k of None \<Rightarrow> None | Some v \<Rightarrow> if v = JUndefined then None else Some v)"
proof (induction kvs)
  case Nil
  then show ?case by simp
next
  case (Cons kv kvs)
  obtain k' v' where kv: "kv = (k', v')" by (cases kv)
  from Cons.prems have notin: "k' \<notin> fst ` set kvs" and d: "distinct (map fst kvs)"
    by (simp_all add: kv)
  from notin have none: "map_of kvs k' = None"
    by (simp add: map_of_eq_None_iff)
  show ?case
    using Cons.IH [OF d] none by (auto simp: kv split: option.splits)
qed

lemma get_prop_defined_props:
  "distinct (map fst kvs) \<Longrightarrow> get_prop (defined_props (JObj kvs)) k = get_prop (JObj kvs) k"
  by (simp add: defined_props_def map_of_defined split: option.splits)

lemma normalize_defined_props:
  "distinct (map fst kvs) \<Longrightarrow>
     normalize_envelope (defined_props (JObj kvs)) = normalize_envelope (JObj kvs)"
  unfolding normalize_envelope_def
  by (simp only: get_prop_defined_props) (simp add: defined_props_def)

lemma normalize_camel: "normalize_envelope (envelope_object e) = Inr (drop_falsy e)"
  by (simp add: normalize_envelope_def envelope_object_def drop_falsy_def)

lemma normalize_snake: "normalize_envelope (envelope_object_snake e) = Inr e"
  by (simp add: normalize_envelope_def envelope_object_snake_def)

lemma drop_falsy_safe: "roundtrip_safe e \<Longrightarrow> drop_falsy e = e"
  by (simp add: roundtrip_safe_def drop_falsy_def js_or_survives)

lemma normalize_defined_camel:
  "normalize_envelope (defined_props (envelope_object e)) = Inr (drop_falsy e)"
proof -
  obtain kvs where c: "envelope_object e = JObj kvs" and d: "distinct (map fst kvs)"
    by (simp add: envelope_object_def)
  from normalize_defined_props [OF d] normalize_camel [of e] show ?thesis
    by (simp add: c)
qed

lemma normalize_defined_snake:
  "normalize_envelope (defined_props (envelope_object_snake e)) = Inr e"
proof -
  obtain kvs where c: "envelope_object_snake e = JObj kvs" and d: "distinct (map fst kvs)"
    by (simp add: envelope_object_snake_def)
  from normalize_defined_props [OF d] normalize_snake [of e] show ?thesis
    by (simp add: c)
qed

text \<open>
  C6, as amended. Let the JSON codec reproduce the envelope's object, up to the properties
  that are \<^verbatim>\<open>undefined\<close>. Then decoding the camel-case encoding of \<open>e\<close> yields \<open>e\<close> with every
  falsy value of \<^verbatim>\<open>eventId\<close>, \<^verbatim>\<open>eventType\<close>, \<^verbatim>\<open>correlationId\<close>, \<^verbatim>\<open>causationId\<close> and
  \<^verbatim>\<open>traceContext\<close> replaced by \<^verbatim>\<open>undefined\<close>; it yields \<open>e\<close> itself when each of these is absent
  or truthy. Decoding the snake-case encoding of \<open>e\<close> yields \<open>e\<close>.
\<close>

theorem C6_roundtrip_up_to_falsy_fields:
  assumes camel: "JSON_parse P (JSON_stringify P (envelope_object e))
                    = Inr (defined_props (envelope_object e))"
    and snake: "JSON_parse P (JSON_stringify P (envelope_object_snake e))
                    = Inr (defined_props (envelope_object_snake e))"
  shows "decode_envelope P (JSON_stringify P (envelope_object e)) = Inr (drop_falsy e)
       \<and> (roundtrip_safe e \<longrightarrow> decode_envelope P (JSON_stringify P (envelope_object e)) = Inr e)
       \<and> decode_envelope P (JSON_stringify P (envelope_object_snake e)) = Inr e"
  by (simp add: decode_envelope_def camel snake normalize_defined_camel normalize_defined_snake
      drop_falsy_safe)

text \<open>The amended C6 on an envelope with every option given, through the reference codec.\<close>

theorem C6_witness:
  "roundtrip_safe full_envelope
   \<and> decode_envelope reference_platform
        (JSON_stringify reference_platform (envelope_object full_envelope)) = Inr full_envelope
   \<and> decode_envelope reference_platform
        (JSON_stringify reference_platform (envelope_object_snake full_envelope))
      = Inr full_envelope"
proof -
  have safe: "roundtrip_safe full_envelope"
    by (simp add: roundtrip_safe_def survives_or_def full_envelope_def createEventEnvelope_def
        opt_chain_def)
  have camel: "JSON_parse reference_platform
      (JSON_stringify reference_platform (envelope_object full_envelope))
      = Inr (defined_props (envelope_object full_envelope))"
    by code_simp
  have snake: "JSON_parse reference_platform
      (JSON_stringify reference_platform (envelope_object_snake full_envelope))
      = Inr (defined_props (envelope_object_snake full_envelope))"
    by code_simp
  from C6_roundtrip_up_to_falsy_fields [OF camel snake] safe show ?thesis
    by blast
qed

text \<open>
  C6 as claimed: decoding the encoded form reproduces every field of every valid envelope.
  An envelope published with the empty string as correlation id comes back with
  \<^verbatim>\<open>correlationId\<close> \<^verbatim>\<open>undefined\<close>: the empty string is falsy, and \<^verbatim>\<open>||\<close> moves on to the
  snake-case property, which is absent.
\<close>

theorem C6_counterexample:
  "correlationId blank_correlation_envelope = JStr []
   \<and> decode_envelope reference_platform
        (JSON_stringify reference_platform (envelope_object blank_correlation_envelope))
      = Inr (blank_correlation_envelope\<lparr>correlationId := JUndefined\<rparr>)"
proof -
  have camel: "JSON_parse reference_platform
      (JSON_stringify reference_platform (envelope_object blank_correlation_envelope))
      = Inr (defined_props (envelope_object blank_correlation_envelope))"
    by code_simp
  have "drop_falsy blank_correlation_envelope
      = blank_correlation_envelope\<lparr>correlationId := JUndefined\<rparr>"
    by (simp add: drop_falsy_def blank_correlation_envelope_def createEventEnvelope_def
        opt_chain_def js_or_def)
  then show ?thesis
    by (simp add: decode_envelope_def camel normalize_defined_camel)
       (simp add: blank_correlation_envelope_def createEventEnvelope_def opt_chain_def)
qed

lemma normalize_rule:
  assumes "raw \<noteq> JNull" and "raw \<noteq> JUndefined"
  shows "normalize_envelope raw = Inr
     \<lparr> eventId = (if truthy (get_prop raw ''eventId'') then get_prop raw ''eventId''
                  else get_prop raw ''event_id''),
       eventType = (if truthy (get_prop raw ''eventType'') then get_prop raw ''eventType''
                    else get_prop raw ''event_type''),
       timestamp = get_prop raw ''timestamp'',
       source = get_prop raw ''source'',
       version = get_prop raw ''version'',
       correlationId = (if truthy (get_prop raw ''correlationId'')
                        then get_prop raw ''correlationId''
                        else get_prop raw ''correlation_id''),
       causationId = (if truthy (get_prop raw ''causationId'')
                      then get_prop raw ''causationId''
                      else get_prop raw ''causation_id''),
       traceContext = (if truthy (get_prop raw ''traceContext'')
                       then get_prop raw ''traceContext''
                       else get_prop raw ''trace_context''),
       metadata = get_prop raw ''metadata'',
       data = get_prop raw ''data'' \<rparr>"
  using assms by (simp add: normalize_envelope_def js_or_def)

text \<open>
  C5, as amended. Decoding a parsed value other than \<^verbatim>\<open>null\<close> never fails. Each of
  \<^verbatim>\<open>eventId\<close>, \<^verbatim>\<open>eventType\<close>, \<^verbatim>\<open>correlationId\<close>, \<^verbatim>\<open>causationId\<close> and \<^verbatim>\<open>traceContext\<close> is the
  camel-case property when that is truthy and the snake-case property otherwise; the
  other five fields are read under their single names. When both \<^verbatim>\<open>eventId\<close>/\<^verbatim>\<open>event_id\<close>
  and \<^verbatim>\<open>eventType\<close>/\<^verbatim>\<open>event_type\<close> are missing, the envelope is built with both \<^verbatim>\<open>undefined\<close>
  and the message takes the ordinary path: the span \<^verbatim>\<open>consume undefined\<close> is opened and
  ended, no handler is invoked (the registry has no entry for \<^verbatim>\<open>undefined\<close>), and \<^verbatim>\<open>XACK\<close>
  is sent; no failure is logged. An object in the snake-case dialect is normalised to
  the camel-case envelope it encodes, and one in the camel-case dialect to that envelope
  up to its falsy values.
\<close>

theorem C5_missing_ids_are_not_rejected:
  assumes payload: "message_payload flds = Some payload"
    and ne: "payload \<noteq> []"
    and parse: "JSON_parse P payload = Inr raw"
    and notnull: "raw \<noteq> JNull" "raw \<noteq> JUndefined"
  shows "decode_envelope P payload = Inr
           \<lparr> eventId = (if truthy (get_prop raw ''eventId'') then get_prop raw ''eventId''
                        else get_prop raw ''event_id''),
             eventType = (if truthy (get_prop raw ''eventType'') then get_prop raw ''eventType''
                          else get_prop raw ''event_type''),
             timestamp = get_prop raw ''timestamp'',
             source = get_prop raw ''source'',
             version = get_prop raw ''version'',
             correlationId = (if truthy (get_prop raw ''correlationId'')
                              then get_prop raw ''correlationId''
                              else get_prop raw ''correlation_id''),
             causationId = (if truthy (get_prop raw ''causationId'')
                            then get_prop raw ''causationId''
                            else get_prop raw ''causation_id''),
             traceContext = (if truthy (get_prop raw ''traceContext'')
                             then get_prop raw ''traceContext''
                             else get_prop raw ''trace_context''),
             metadata = get_prop raw ''metadata'',
             data = get_prop raw ''data'' \<rparr>
         \<and> (get_prop raw ''eventId'' = JUndefined \<and> get_prop raw ''event_id'' = JUndefined
            \<and> get_prop raw ''eventType'' = JUndefined \<and> get_prop raw ''event_type'' = JUndefined
            \<longrightarrow>
              (case decode_envelope P payload of
                 Inl err \<Rightarrow> False
               | Inr envelope \<Rightarrow>
                   eventId envelope = JUndefined \<and> eventType envelope = JUndefined
                   \<and> emitted w (processMessage P C xack_reply stream messageId flds w) =
                       SpanStart (consumer_span P envelope w) ''consume undefined'' CONSUMER None
                         (consumer_parent P envelope w) #
                       span_attributes (consumer_span P envelope w) envelope @
                       SpanEnd (consumer_span P envelope w) #
                       ack_events xack_reply stream (consumerGroup C) messageId))
         \<and> normalize_envelope (envelope_object_snake e) = Inr e
         \<and> normalize_envelope (envelope_object e) = Inr (drop_falsy e)"
proof -
  note dec = normalize_rule [OF notnull]
  have d: "decode_envelope P payload = normalize_envelope raw"
    by (simp add: decode_envelope_def parse)
  have missing: "case decode_envelope P payload of
       Inl err \<Rightarrow> False
     | Inr envelope \<Rightarrow>
         eventId envelope = JUndefined \<and> eventType envelope = JUndefined
         \<and> emitted w (processMessage P C xack_reply stream messageId flds w) =
             SpanStart (consumer_span P envelope w) ''consume undefined'' CONSUMER None
               (consumer_parent P envelope w) #
             span_attributes (consumer_span P envelope w) envelope @
             SpanEnd (consumer_span P envelope w) #
             ack_events xack_reply stream (consumerGroup C) messageId"
    if m: "get_prop raw ''eventId'' = JUndefined \<and> get_prop raw ''event_id'' = JUndefined
         \<and> get_prop raw ''eventType'' = JUndefined \<and> get_prop raw ''event_type'' = JUndefined"
  proof -
    obtain envelope where n: "normalize_envelope raw = Inr envelope"
      and i: "eventId envelope = JUndefined" and t: "eventType envelope = JUndefined"
      using m by (simp add: dec)
    have dec': "decode_envelope P payload = Inr envelope"
      by (simp add: d n)
    have name: "js_ToString (eventType envelope) = Inr ''undefined''"
      by (simp add: t)
    have unreg: "handlers_get (handlers C) (eventType envelope) = None"
      by (simp add: handlers_get_def t)
    have "emitted w (processMessage P C xack_reply stream messageId flds w) =
          SpanStart (consumer_span P envelope w) ''consume undefined'' CONSUMER None
            (consumer_parent P envelope w) #
          span_attributes (consumer_span P envelope w) envelope @
          SpanEnd (consumer_span P envelope w) #
          ack_events xack_reply stream (consumerGroup C) messageId"
      by (rule emitted_append)
         (simp add: processMessage_decoded [OF payload ne dec' name] unreg)
    then show ?thesis
      by (simp add: dec' i t)
  qed
  from dec d have "decode_envelope P payload = Inr
           \<lparr> eventId = (if truthy (get_prop raw ''eventId'') then get_prop raw ''eventId''
                        else get_prop raw ''event_id''),
             eventType = (if truthy (get_prop raw ''eventType'') then get_prop raw ''eventType''
                          else get_prop raw ''event_type''),
             timestamp = get_prop raw ''timestamp'',
             source = get_prop raw ''source'',
             version = get_prop raw ''version'',
             correlationId = (if truthy (get_prop raw ''correlationId'')
                              then get_prop raw ''correlationId''
                              else get_prop raw ''correlation_id''),
             causationId = (if truthy (get_prop raw ''causationId'')
                            then get_prop raw ''causationId''
                            else get_prop raw ''causation_id''),
             traceContext = (if truthy (get_prop raw ''traceContext'')
                             then get_prop raw ''traceContext''
                             else get_prop raw ''trace_context''),
             metadata = get_prop raw ''metadata'',
             data = get_prop raw ''data'' \<rparr>"
    by (simp only:)
  with missing normalize_snake [of e] normalize_camel [of e] show ?thesis
    by blast
qed

text \<open>
  C5 as claimed: decoding fails when both the id and the type are missing. On the code,
  a payload with neither decodes to an envelope whose id and type are \<^verbatim>\<open>undefined\<close>.
\<close>

theorem C5_counterexample:
  \<open>decode_envelope reference_platform ''{"data":{"orderId":"o1"}}''
     = Inr \<lparr>eventId = JUndefined, eventType = JUndefined, timestamp = JUndefined,
            source = JUndefined, version = JUndefined, correlationId = JUndefined,
            causationId = JUndefined, traceContext = JUndefined, metadata = JUndefined,
            data = JObj [(''orderId'', JStr ''o1'')]\<rparr>\<close>
  by code_simp

text \<open>The amended C5 on a payload that carries only a source, and on one that carries
  its id in both dialects and an empty camel-case type: the camel-case id wins, the empty
  type gives way to the snake-case one.\<close>

theorem C5_witness:
  \<open>emitted world0 (processMessage reference_platform order_consumer None ''events:order'' ''7-0''
       [''data'', ''{"source":"legacy"}''] world0)
     = [SpanStart (SpanContext ''00000000000000000000000000000001'' ''0000000000000001'' 1)
          ''consume undefined'' CONSUMER None None,
        SetAttribute (SpanContext ''00000000000000000000000000000001'' ''0000000000000001'' 1)
          ''messaging.system'' (JStr ''redis_streams''),
        SetAttribute (SpanContext ''00000000000000000000000000000001'' ''0000000000000001'' 1)
          ''messaging.operation'' (JStr ''receive''),
        SetAttribute (SpanContext ''00000000000000000000000000000001'' ''0000000000000001'' 1)
          ''event.type'' JUndefined,
        SetAttribute (SpanContext ''00000000000000000000000000000001'' ''0000000000000001'' 1)
          ''event.id'' JUndefined,
        SetAttribute (SpanContext ''00000000000000000000000000000001'' ''0000000000000001'' 1)
          ''event.source'' (JStr ''legacy''),
        SpanEnd (SpanContext ''00000000000000000000000000000001'' ''0000000000000001'' 1),
        XACK ''events:order'' ''order-service-group'' ''7-0'']
   \<and> decode_envelope reference_platform order_mixed
     = Inr \<lparr>eventId = JStr ''camel'', eventType = JStr ''order.shipped'',
            timestamp = JUndefined, source = JUndefined, version = JUndefined,
            correlationId = JUndefined, causationId = JUndefined,
            traceContext = JUndefined, metadata = JUndefined, data = JUndefined\<rparr>\<close>
proof -
  have p: \<open>message_payload [''data'', ''{"source":"legacy"}''] = Some ''{"source":"legacy"}''\<close>
    by (simp add: message_payload_def str_or_def)
  have n: \<open>''{"source":"legacy"}'' \<noteq> []\<close>
    by simp
  have parse: \<open>JSON_parse reference_platform ''{"source":"legacy"}''
      = Inr (JObj [(''source'', JStr ''legacy'')])\<close>
    by code_simp
  have nn: "JObj [(''source'', JStr ''legacy'')] \<noteq> JNull"
    "JObj [(''source'', JStr ''legacy'')] \<noteq> JUndefined"
    by simp_all
  have sp: "tracer_startSpan reference_platform None 0
      = SpanContext ''00000000000000000000000000000001'' ''0000000000000001'' 1"
    by code_simp
  let ?env = "\<lparr>eventId = JUndefined, eventType = JUndefined, timestamp = JUndefined,
            source = JStr ''legacy'', version = JUndefined, correlationId = JUndefined,
            causationId = JUndefined, traceContext = JUndefined, metadata = JUndefined,
            data = JUndefined\<rparr>"
  note th = C5_missing_ids_are_not_rejected [OF p n parse nn, where w = world0
      and C = order_consumer and xack_reply = None and stream = "''events:order''"
      and messageId = "''7-0''" and e = full_envelope]
  have dec: \<open>decode_envelope reference_platform ''{"source":"legacy"}'' = Inr ?env\<close>
    using th [THEN conjunct1] by simp
  have miss: "get_prop (JObj [(''source'', JStr ''legacy'')]) ''eventId'' = JUndefined
      \<and> get_prop (JObj [(''source'', JStr ''legacy'')]) ''event_id'' = JUndefined
      \<and> get_prop (JObj [(''source'', JStr ''legacy'')]) ''eventType'' = JUndefined
      \<and> get_prop (JObj [(''source'', JStr ''legacy'')]) ''event_type'' = JUndefined"
    by simp
  from th [THEN conjunct2, THEN conjunct1, THEN mp, OF miss]
  have \<open>emitted world0 (processMessage reference_platform order_consumer None ''events:order''
           ''7-0'' [''data'', ''{"source":"legacy"}''] world0)
      = SpanStart (consumer_span reference_platform ?env world0) ''consume undefined'' CONSUMER None
          (consumer_parent reference_platform ?env world0) #
        span_attributes (consumer_span reference_platform ?env world0) ?env @
        SpanEnd (consumer_span reference_platform ?env world0) #
        ack_events None ''events:order'' (consumerGroup order_consumer) ''7-0''\<close>
    by (simp add: dec)
  then have first: \<open>emitted world0 (processMessage reference_platform order_consumer None
       ''events:order'' ''7-0'' [''data'', ''{"source":"legacy"}''] world0)
     = [SpanStart (SpanContext ''00000000000000000000000000000001'' ''0000000000000001'' 1)
          ''consume undefined'' CONSUMER None None,
        SetAttribute (SpanContext ''00000000000000000000000000000001'' ''0000000000000001'' 1)
          ''messaging.system'' (JStr ''redis_streams''),
        SetAttribute (SpanContext ''00000000000000000000000000000001'' ''0000000000000001'' 1)
          ''messaging.operation'' (JStr ''receive''),
        SetAttribute (SpanContext ''00000000000000000000000000000001'' ''0000000000000001'' 1)
          ''event.type'' JUndefined,
        SetAttribute (SpanContext ''00000000000000000000000000000001'' ''0000000000000001'' 1)
          ''event.id'' JUndefined,
        SetAttribute (SpanContext ''00000000000000000000000000000001'' ''0000000000000001'' 1)
          ''event.source'' (JStr ''legacy''),
        SpanEnd (SpanContext ''00000000000000000000000000000001'' ''0000000000000001'' 1),
        XACK ''events:order'' ''order-service-group'' ''7-0'']\<close>
    by (simp add: consumer_span_def consumer_parent_def span_attributes_def ack_events_def
        world0_def order_consumer_def sp)
  have pm: "message_payload [''data'', order_mixed] = Some order_mixed"
    and nm: "order_mixed \<noteq> []"
    by (simp_all add: message_payload_def str_or_def order_mixed_def)
  have parsem: \<open>JSON_parse reference_platform order_mixed
      = Inr (JObj [(''eventId'', JStr ''camel''), (''event_id'', JStr ''snake''),
                   (''eventType'', JStr []), (''event_type'', JStr ''order.shipped'')])\<close>
    by code_simp
  have nnm: "JObj [(''eventId'', JStr ''camel''), (''event_id'', JStr ''snake''),
                   (''eventType'', JStr []), (''event_type'', JStr ''order.shipped'')] \<noteq> JNull"
    "JObj [(''eventId'', JStr ''camel''), (''event_id'', JStr ''snake''),
                   (''eventType'', JStr []), (''event_type'', JStr ''order.shipped'')] \<noteq> JUndefined"
    by simp_all
  from C5_missing_ids_are_not_rejected [OF pm nm parsem nnm, where w = world0
      and C = order_consumer and xack_reply = None and stream = "''events:order''"
      and messageId = "''7-1''" and e = full_envelope, THEN conjunct1]
  have second: \<open>decode_envelope reference_platform order_mixed
     = Inr \<lparr>eventId = JStr ''camel'', eventType = JStr ''order.shipped'',
            timestamp = JUndefined, source = JUndefined, version = JUndefined,
            correlationId = JUndefined, causationId = JUndefined,
            traceContext = JUndefined, metadata = JUndefined, data = JUndefined\<rparr>\<close>
    by simp
  from first second show ?thesis
    by (simp only:)
qed


section \<open>Trace propagation\<close>

lemma hex_digit_roundtrip: "f < 16 \<Longrightarrow> is_hex (hex_digit f) \<and> hex_val (hex_digit f) = f"
proof -
  assume "f < 16"
  then have "f \<in> {0,1,2,3,4,5,6,7,8,9,10,11,12,13,14,15}" by (simp; arith)
  then show ?thesis
    by (auto simp: hex_digit_def is_hex_def hex_val_def is_digit_def)
qed

lemma parseTraceParent_traceparent:
  assumes t: "valid_id 32 tid" and s: "valid_id 16 sid" and f: "f < 16"
  shows "parseTraceParent (''00-'' @ tid @ ''-'' @ sid @ ''-0'' @ show_hex f)
           = Some (SpanContext tid sid f)"
proof -
  from t have t': "length tid = 32" "list_all is_hex tid" "tid \<noteq> replicate 32 (CHR ''0'')"
    by (simp_all add: valid_id_def)
  from s have s': "length sid = 16" "list_all is_hex sid" "sid \<noteq> replicate 16 (CHR ''0'')"
    by (simp_all add: valid_id_def)
  have hex: "is_hex (CHR ''0'')" "hex_val (CHR ''0'') = 0" "\<not> is_space (CHR ''0'')"
    by (simp_all add: is_hex_def is_digit_def hex_val_def is_space_def)
  from f have sh: "show_hex f = [hex_digit f]"
    by (simp add: show_hex.simps)
  show ?thesis
    using t' s' hex hex_digit_roundtrip [OF f]
    by (simp add: parseTraceParent_def Let_def sh valid_id_def nth_append trailer_ok_def)
qed

lemma valid_id_isValid:
  "valid_id 32 tid \<Longrightarrow> isValidTraceId tid" "valid_id 16 sid \<Longrightarrow> isValidSpanId sid"
  by (auto simp: valid_id_def isValidTraceId_def isValidSpanId_def list_all_iff is_hex_def
      is_hex_digit_def is_digit_def Let_def)

lemma w3c_inject_none: "w3c_inject None (JObj []) = JObj []"
  by (simp add: w3c_inject_def)

lemma w3c_inject_invalid: "\<not> isSpanContextValid sc \<Longrightarrow> w3c_inject (Some sc) (JObj []) = JObj []"
  by (simp add: w3c_inject_def)

lemma w3c_inject_valid:
  "isSpanContextValid sc \<Longrightarrow>
     w3c_inject (Some sc) (JObj [])
       = JObj [(''traceparent'',
                JStr (''00-'' @ traceId sc @ ''-'' @ spanId sc @ ''-0'' @ show_hex (traceFlags sc)))]"
  by (simp add: w3c_inject_def obj_put_def)

lemma w3c_extract_empty: "w3c_extract ctx (JObj []) = ctx"
  by (simp add: w3c_extract_def)

lemma w3c_extract_traceparent:
  assumes "valid_id 32 (traceId sc)" and "valid_id 16 (spanId sc)" and "traceFlags sc < 16"
  shows "w3c_extract ctx
           (JObj [(''traceparent'',
              JStr (''00-'' @ traceId sc @ ''-'' @ spanId sc @ ''-0'' @ show_hex (traceFlags sc)))])
         = Some sc"
  using parseTraceParent_traceparent [OF assms]
  by (simp add: w3c_extract_def)

lemma js_or_truthy: "truthy (js_or c JUndefined) = truthy c"
  by (simp add: js_or_def)

lemma js_or_of_truthy: "truthy c \<Longrightarrow> js_or c x = c"
  by (simp add: js_or_def)

lemma publish_emits_envelope:
  "XADD (EventPublisher_getStreamName (publisher_streamPrefix pub) et) ''data''
        (published_payload P pub uuid now et d options w)
     \<in> set (emitted w (snd (publish P xadd_reply pub uuid now et d options w)))"
  by (simp add: publish_def publish_fn_def withSpan_def createSpan_def context_with_def
      trace_setSpan_def Let_def emitted_def published_payload_def split: sum.splits)

lemma publish_traceContext:
  "traceContext (publish_envelope P pub uuid now et d options w)
     = propagation_inject P (active w) (JObj [])"
  by (simp add: publish_envelope_def createEventEnvelope_def spread_options_def opt_chain_def
      getCurrentTraceContext_def Let_def split: option.splits)

lemma publish_eventType:
  "eventType (publish_envelope P pub uuid now et d options w) = JStr et"
  by (simp add: publish_envelope_def createEventEnvelope_def Let_def)

lemma consumer_parent_delivered:
  "consumer_parent P (drop_falsy envelope) w' =
     (if truthy (traceContext envelope)
      then propagation_extract P (active w') (traceContext envelope) else active w')"
  by (simp add: consumer_parent_def drop_falsy_def js_or_truthy js_or_of_truthy
      extractTraceContext_def)

lemma delivered_span_start:
  assumes codec: "JSON_parse P (published_payload P pub uuid now et d options w)
      = Inr (defined_props (envelope_object (publish_envelope P pub uuid now et d options w)))"
    and filled: "published_payload P pub uuid now et d options w \<noteq> []"
    and named: "et \<noteq> []"
  shows "decode_envelope P (published_payload P pub uuid now et d options w)
           = Inr (drop_falsy (publish_envelope P pub uuid now et d options w))"
    and "\<exists>rest. emitted w' (processMessage P C xack_reply stream messageId
             [''data'', published_payload P pub uuid now et d options w] w')
           = SpanStart
               (tracer_startSpan P
                  (consumer_parent P (drop_falsy (publish_envelope P pub uuid now et d options w)) w')
                  (seed w'))
               (''consume '' @ et) CONSUMER None
               (consumer_parent P (drop_falsy (publish_envelope P pub uuid now et d options w)) w')
             # rest"
proof -
  let ?env = "publish_envelope P pub uuid now et d options w"
  let ?payload = "published_payload P pub uuid now et d options w"
  show dec: "decode_envelope P ?payload = Inr (drop_falsy ?env)"
    by (simp add: decode_envelope_def codec normalize_defined_camel)
  have name: "js_ToString (eventType (drop_falsy ?env)) = Inr et"
    using named by (simp add: drop_falsy_def publish_eventType js_or_def)
  from processMessage_decoded [OF payload_of_data_field [OF filled] filled dec name,
      where C = C and xack_reply = xack_reply and stream = stream and messageId = messageId
        and w = w']
  show "\<exists>rest. emitted w' (processMessage P C xack_reply stream messageId [''data'', ?payload] w')
           = SpanStart (tracer_startSpan P (consumer_parent P (drop_falsy ?env) w') (seed w'))
               (''consume '' @ et) CONSUMER None (consumer_parent P (drop_falsy ?env) w')
             # rest"
    by (simp add: emitted_def consumer_span_def)
qed

text \<open>
  C8, as amended. The \<^verbatim>\<open>traceContext\<close> of a published envelope is what the propagator
  injects into an empty carrier for the context that is active when \<^verbatim>\<open>publish\<close> is called,
  before the producer span is opened; the envelope is appended under the key \<^verbatim>\<open>data\<close>.
  When that entry is delivered and the JSON codec reproduces the envelope's object, the
  consumer decodes the envelope and starts the span \<^verbatim>\<open>consume <type>\<close> under the context
  that \<^verbatim>\<open>extractTraceContext\<close> reads from that carrier. With the W3C propagator: published
  inside a valid span, the carrier holds that span's \<^verbatim>\<open>traceparent\<close>, and the parent of the
  consumer span is that span when its identifiers are in lower case and its flags below
  16; published with no span or an invalid one active, the carrier is the empty object
  and the consumer span starts under the consumer's own active context.
\<close>

theorem C8_traceContext_is_the_ambient_carrier:
  assumes codec: "JSON_parse P (published_payload P pub uuid now et d options w)
      = Inr (defined_props (envelope_object (publish_envelope P pub uuid now et d options w)))"
    and filled: "published_payload P pub uuid now et d options w \<noteq> []"
    and named: "et \<noteq> []"
  shows
    "(let envelope = publish_envelope P pub uuid now et d options w;
          payload = published_payload P pub uuid now et d options w;
          carrier = propagation_inject P (active w) (JObj []);
          parent = (if truthy carrier then propagation_extract P (active w') carrier
                    else active w')
      in traceContext envelope = carrier
         \<and> XADD (EventPublisher_getStreamName (publisher_streamPrefix pub) et) ''data'' payload
             \<in> set (emitted w (snd (publish P xadd_reply pub uuid now et d options w)))
         \<and> decode_envelope P payload = Inr (drop_falsy envelope)
         \<and> consumer_parent P (drop_falsy envelope) w' = parent
         \<and> (\<exists>rest. emitted w' (processMessage P C xack_reply stream messageId
                      [''data'', payload] w')
               = SpanStart (tracer_startSpan P parent (seed w')) (''consume '' @ et) CONSUMER
                   None parent # rest)
         \<and> (propagation_inject P = w3c_inject \<and> propagation_extract P = w3c_extract \<longrightarrow>
              (case active w of
                 None \<Rightarrow> carrier = JObj [] \<and> parent = active w'
               | Some sc \<Rightarrow>
                   if isSpanContextValid sc
                   then carrier
                          = JObj [(''traceparent'',
                              JStr (''00-'' @ traceId sc @ ''-'' @ spanId sc @ ''-0''
                                    @ show_hex (traceFlags sc)))]
                        \<and> (valid_id 32 (traceId sc) \<and> valid_id 16 (spanId sc)
                             \<and> traceFlags sc < 16 \<longrightarrow> parent = Some sc)
                   else carrier = JObj [] \<and> parent = active w')))"
proof -
  let ?env = "publish_envelope P pub uuid now et d options w"
  let ?carrier = "propagation_inject P (active w) (JObj [])"
  let ?parent = "if truthy ?carrier then propagation_extract P (active w') ?carrier
                 else active w'"
  have tc: "traceContext ?env = ?carrier"
    by (rule publish_traceContext)
  have par: "consumer_parent P (drop_falsy ?env) w' = ?parent"
    by (simp add: consumer_parent_delivered tc)
  note del = delivered_span_start(1) [OF codec filled named]
    delivered_span_start(2) [OF codec filled named, where w' = w' and C = C
      and xack_reply = xack_reply and stream = stream and messageId = messageId]
  have w3c: "propagation_inject P = w3c_inject \<and> propagation_extract P = w3c_extract \<longrightarrow>
      (case active w of
         None \<Rightarrow> ?carrier = JObj [] \<and> ?parent = active w'
       | Some sc \<Rightarrow>
           if isSpanContextValid sc
           then ?carrier
                  = JObj [(''traceparent'',
                      JStr (''00-'' @ traceId sc @ ''-'' @ spanId sc @ ''-0''
                            @ show_hex (traceFlags sc)))]
                \<and> (valid_id 32 (traceId sc) \<and> valid_id 16 (spanId sc)
                     \<and> traceFlags sc < 16 \<longrightarrow> ?parent = Some sc)
           else ?carrier = JObj [] \<and> ?parent = active w')"
  proof (intro impI, elim conjE)
    assume i: "propagation_inject P = w3c_inject" and e: "propagation_extract P = w3c_extract"
    show "case active w of
         None \<Rightarrow> ?carrier = JObj [] \<and> ?parent = active w'
       | Some sc \<Rightarrow>
           if isSpanContextValid sc
           then ?carrier
                  = JObj [(''traceparent'',
                      JStr (''00-'' @ traceId sc @ ''-'' @ spanId sc @ ''-0''
                            @ show_hex (traceFlags sc)))]
                \<and> (valid_id 32 (traceId sc) \<and> valid_id 16 (spanId sc)
                     \<and> traceFlags sc < 16 \<longrightarrow> ?parent = Some sc)
           else ?carrier = JObj [] \<and> ?parent = active w'"
    proof (cases "active w")
      case None
      then show ?thesis
        by (simp add: i e w3c_inject_none w3c_extract_empty)
    next
      case (Some sc)
      show ?thesis
      proof (cases "isSpanContextValid sc")
        case False
        then show ?thesis
          by (simp add: Some i e w3c_inject_invalid w3c_extract_empty)
      next
        case True
        let ?tp = "JObj [(''traceparent'',
            JStr (''00-'' @ traceId sc @ ''-'' @ spanId sc @ ''-0'' @ show_hex (traceFlags sc)))]"
        have c: "?carrier = ?tp"
          by (simp only: Some i w3c_inject_valid [OF True])
        have p: "?parent = Some sc"
          if "valid_id 32 (traceId sc) \<and> valid_id 16 (spanId sc) \<and> traceFlags sc < 16"
        proof -
          from that have "w3c_extract (active w') ?tp = Some sc"
            by (simp only: w3c_extract_traceparent)
          then show ?thesis
            by (simp only: c e truthy.simps if_True)
        qed
        from c p show ?thesis
          by (simp only: Some True option.case if_True) blast
      qed
    qed
  qed
  show ?thesis
    unfolding Let_def
    using tc publish_emits_envelope [of pub et P uuid now d options w xadd_reply] del par w3c
    by (simp only:)
qed

text \<open>The amended C8 on a publish inside a caller's span: the carrier names that span, and
  the consumer span that processes the delivered entry has it as its parent and continues
  its trace.\<close>

theorem C8_witness:
  "traceContext (publish_envelope reference_platform order_publisher
        ''7c9e6679-7425-40de-944b-e07fc1f90ae7'' ''2024-05-01T12:00:00.000Z''
        ''order.created'' (JObj [(''orderId'', JStr ''o1'')]) None traced_world)
      = JObj [(''traceparent'',
               JStr ''00-4bf92f3577b34da6a3ce929d0e0e4736-00f067aa0ba902b7-01'')]
   \<and> (\<exists>rest. emitted world0 (processMessage reference_platform order_consumer None
                 ''events:orders'' ''8-0''
                 [''data'', published_payload reference_platform order_publisher
                    ''7c9e6679-7425-40de-944b-e07fc1f90ae7'' ''2024-05-01T12:00:00.000Z''
                    ''order.created'' (JObj [(''orderId'', JStr ''o1'')]) None traced_world]
                 world0)
          = SpanStart (SpanContext ''4bf92f3577b34da6a3ce929d0e0e4736'' ''0000000000000001'' 1)
              ''consume order.created'' CONSUMER None (Some caller_span) # rest)"
proof -
  let ?payload = "published_payload reference_platform order_publisher
      ''7c9e6679-7425-40de-944b-e07fc1f90ae7'' ''2024-05-01T12:00:00.000Z''
      ''order.created'' (JObj [(''orderId'', JStr ''o1'')]) None traced_world"
  let ?env = "publish_envelope reference_platform order_publisher
      ''7c9e6679-7425-40de-944b-e07fc1f90ae7'' ''2024-05-01T12:00:00.000Z''
      ''order.created'' (JObj [(''orderId'', JStr ''o1'')]) None traced_world"
  have codec: "JSON_parse reference_platform ?payload = Inr (defined_props (envelope_object ?env))"
    by code_simp
  have filled: "?payload \<noteq> []"
    by code_simp
  have named: "''order.created'' \<noteq> []"
    by simp
  have a: "active traced_world = Some caller_span" and a0: "active world0 = None"
    and s0: "seed world0 = 0"
    by (simp_all add: traced_world_def world0_def)
  have plat: "propagation_inject reference_platform = w3c_inject"
    "propagation_extract reference_platform = w3c_extract"
    by (simp_all add: reference_platform_def)
  have v: "isSpanContextValid caller_span" "valid_id 32 (traceId caller_span)"
    "valid_id 16 (spanId caller_span)" "traceFlags caller_span < 16"
    by code_simp+
  have tp: "''00-'' @ traceId caller_span @ ''-'' @ spanId caller_span @ ''-0''
      @ show_hex (traceFlags caller_span)
      = ''00-4bf92f3577b34da6a3ce929d0e0e4736-00f067aa0ba902b7-01''"
    by code_simp
  have sp: "tracer_startSpan reference_platform (Some caller_span) 0
      = SpanContext ''4bf92f3577b34da6a3ce929d0e0e4736'' ''0000000000000001'' 1"
    by code_simp
  note th = C8_traceContext_is_the_ambient_carrier [OF codec filled named,
      where w' = world0 and C = order_consumer and xack_reply = None
        and stream = "''events:orders''" and messageId = "''8-0''"
        and xadd_reply = "Inr (Some ''8-0'')", unfolded Let_def a]
  note c1 = th [THEN conjunct1]
  note c5 = th [THEN conjunct2, THEN conjunct2, THEN conjunct2, THEN conjunct2,
      THEN conjunct1]
  note c6 = th [THEN conjunct2, THEN conjunct2, THEN conjunct2, THEN conjunct2,
      THEN conjunct2, THEN mp, OF conjI [OF plat],
      unfolded option.case v(1) [THEN eqTrueI] if_True]
  note w3c = c6 [THEN conjunct1]
  note par = c6 [THEN conjunct2, THEN mp, OF conjI [OF v(2) conjI [OF v(3) v(4)]]]
  from c5 have "\<exists>rest. emitted world0 (processMessage reference_platform order_consumer None
        ''events:orders'' ''8-0'' [''data'', ?payload] world0)
      = SpanStart (SpanContext ''4bf92f3577b34da6a3ce929d0e0e4736'' ''0000000000000001'' 1)
          ''consume order.created'' CONSUMER None (Some caller_span) # rest"
    by (simp only: par s0 sp append.simps)
  moreover from c1 have "traceContext ?env
      = JObj [(''traceparent'',
               JStr ''00-4bf92f3577b34da6a3ce929d0e0e4736-00f067aa0ba902b7-01'')]"
    by (simp only: w3c tp)
  ultimately show ?thesis
    by (simp only:)
qed

text \<open>
  C8 as claimed: the \<^verbatim>\<open>traceContext\<close> of a published envelope is non-empty and yields a
  parent for the consumer span. Published where no span is active, the envelope carries
  the empty object, and the consumer span that processes the delivered entry has no
  parent and starts a new trace.
\<close>

theorem C8_counterexample:
  "traceContext (publish_envelope reference_platform order_publisher
        ''7c9e6679-7425-40de-944b-e07fc1f90ae7'' ''2024-05-01T12:00:00.000Z''
        ''order.created'' (JObj [(''orderId'', JStr ''o1'')]) None world0)
      = JObj []
   \<and> (\<exists>rest. emitted world0 (processMessage reference_platform order_consumer None
                 ''events:orders'' ''9-0''
                 [''data'', published_payload reference_platform order_publisher
                    ''7c9e6679-7425-40de-944b-e07fc1f90ae7'' ''2024-05-01T12:00:00.000Z''
                    ''order.created'' (JObj [(''orderId'', JStr ''o1'')]) None world0]
                 world0)
          = SpanStart (SpanContext ''00000000000000000000000000000001'' ''0000000000000001'' 1)
              ''consume order.created'' CONSUMER None None # rest)"
proof -
  let ?payload = "published_payload reference_platform order_publisher
      ''7c9e6679-7425-40de-944b-e07fc1f90ae7'' ''2024-05-01T12:00:00.000Z''
      ''order.created'' (JObj [(''orderId'', JStr ''o1'')]) None world0"
  let ?env = "publish_envelope reference_platform order_publisher
      ''7c9e6679-7425-40de-944b-e07fc1f90ae7'' ''2024-05-01T12:00:00.000Z''
      ''order.created'' (JObj [(''orderId'', JStr ''o1'')]) None world0"
  have codec: "JSON_parse reference_platform ?payload = Inr (defined_props (envelope_object ?env))"
    by code_simp
  have filled: "?payload \<noteq> []"
    by code_simp
  have named: "''order.created'' \<noteq> []"
    by simp
  have tc: "traceContext ?env = JObj []"
    by (simp add: publish_traceContext reference_platform_def world0_def w3c_inject_def)
  have par: "consumer_parent reference_platform (drop_falsy ?env) world0 = None"
    by (simp only: consumer_parent_delivered tc)
       (simp add: reference_platform_def world0_def w3c_extract_def)
  have sp: "tracer_startSpan reference_platform None (seed world0)
      = SpanContext ''00000000000000000000000000000001'' ''0000000000000001'' 1"
    by code_simp
  from delivered_span_start(2) [OF codec filled named, where w' = world0
      and C = order_consumer and xack_reply = None and stream = "''events:orders''"
      and messageId = "''9-0''"]
  have "\<exists>rest. emitted world0 (processMessage reference_platform order_consumer None
        ''events:orders'' ''9-0'' [''data'', ?payload] world0)
      = SpanStart (SpanContext ''00000000000000000000000000000001'' ''0000000000000001'' 1)
          ''consume order.created'' CONSUMER None None # rest"
    by (simp only: par sp append.simps)
  with tc show ?thesis
    by (simp only:)
qed

end
